theory Spec2Isabelle
  imports Main "HOL-Library.AList"
begin

section \<open>Domain model\<close>

text \<open>
  The domain types are imported by both repositories from the core domain module. A
  \<open>Date\<close> is modelled by its time value (milliseconds since the epoch) and a
  \<open>URL\<close> by its serialised href, so \<open>toISOString\<close>/\<open>new Date\<close> and
  \<open>toString\<close>/\<open>new URL\<close> are the identity on these values. Optional
  properties (\<open>checkinAt?\<close>, \<open>checkoutAt?\<close>) are options.
\<close>

type_synonym DeviceId = string
type_synonym Date = int
type_synonym URL = string

record Owner =
  id_owner :: string
  name_owner :: string

record Computer =
  id_dev :: DeviceId
  brand :: string
  model :: string
  owner :: Owner
  photoURL :: URL
  updatedAt :: Date
  checkinAt :: "Date option"
  checkoutAt :: "Date option"

record MedicalDevice = Computer +
  serial :: string

record FrequentComputer =
  device :: Computer
  checkinURL :: URL
  checkoutURL :: URL

text \<open>The tag of an entered device: "computer", "medical-device", "frequent-computer".\<close>

datatype DeviceType = computer | medical_device | frequent_computer

text \<open>
  An entered device is an object with a \<open>type\<close> tag. The in-memory repository builds it
  with six properties and the tag; the Supabase repository spreads a whole computer or
  medical device into it. Properties that one of the two leaves out are options.
\<close>

record EnteredDevice =
  id_ent :: DeviceId
  brand_ent :: string
  model_ent :: string
  owner_ent :: Owner
  photoURL_ent :: "URL option"
  updatedAt_ent :: Date
  checkinAt_ent :: "Date option"
  checkoutAt_ent :: "Date option"
  serial_ent :: "string option"
  type_ent :: DeviceType

text \<open>
  A value passed to a filter, and the content of a column: text, a timestamp, or null.
\<close>

datatype cell = Text string | Timestamp Date | Null

record DeviceCriteria =
  filterBy :: "(string \<times> cell) option"
  sortBy :: "(string \<times> bool) option"
  limit :: "nat option"
  offset :: "nat option"

definition no_criteria :: DeviceCriteria where
  "no_criteria = \<lparr>filterBy = None, sortBy = None, limit = None, offset = None\<rparr>"

text \<open>
  What a repository method throws: a service error, the \<open>TypeError\<close> of a property
  write on \<open>undefined\<close>, or an error object handed back by the storage client, which
  the Supabase repository rethrows as it is.
\<close>

datatype backend_error =
  UniqueViolation | NoSingleRow | UnknownColumn | Unavailable

datatype error = DeviceNotFound | DuplicateDevice | TypeError | Backend backend_error


section \<open>The in-memory repository\<close>

text \<open>
  A JavaScript \<open>Map\<close> keeps its keys in insertion order, and \<open>set\<close> on a key that is
  present replaces the value in place: an association list with \<open>AList.update\<close>,
  \<open>AList.delete\<close> and \<open>map_of\<close>. The stored objects are modelled by value, so
  the records that a caller hands in are taken to be distinct objects.
\<close>

record InMemoryDeviceRepository =
  computers :: "(DeviceId \<times> Computer) list"
  medicalDevices :: "(DeviceId \<times> MedicalDevice) list"
  enteredDevices :: "(DeviceId \<times> EnteredDevice) list"
  frequentComputer :: "(DeviceId \<times> FrequentComputer) list"

definition InMemory_new :: InMemoryDeviceRepository where
  "InMemory_new =
     \<lparr>computers = [], medicalDevices = [], enteredDevices = [], frequentComputer = []\<rparr>"

definition has :: "('k \<times> 'v) list \<Rightarrow> 'k \<Rightarrow> bool" where
  "has m k = (map_of m k \<noteq> None)"

definition values_of :: "('k \<times> 'v) list \<Rightarrow> 'v list" where
  "values_of m = map snd m"

text \<open>
  The three private mappers read the clock twice (\<open>updatedAt\<close> and \<open>checkinAt\<close> are
  each a fresh \<open>new Date()\<close>); the two readings are parameters.
\<close>

definition mapDeviceFromComputer :: "Computer \<Rightarrow> Date \<Rightarrow> Date \<Rightarrow> EnteredDevice" where
  "mapDeviceFromComputer c now1 now2 =
     \<lparr>id_ent = id_dev c, brand_ent = brand c, model_ent = model c, owner_ent = owner c,
      photoURL_ent = None, updatedAt_ent = now1, checkinAt_ent = Some now2,
      checkoutAt_ent = None, serial_ent = None, type_ent = computer\<rparr>"

definition mapDeviceFromMedicalDevice :: "MedicalDevice \<Rightarrow> Date \<Rightarrow> Date \<Rightarrow> EnteredDevice" where
  "mapDeviceFromMedicalDevice d now1 now2 =
     \<lparr>id_ent = id_dev d, brand_ent = brand d, model_ent = model d, owner_ent = owner d,
      photoURL_ent = None, updatedAt_ent = now1, checkinAt_ent = Some now2,
      checkoutAt_ent = None, serial_ent = None, type_ent = medical_device\<rparr>"

definition mapDeviceFrequentComputer :: "FrequentComputer \<Rightarrow> Date \<Rightarrow> Date \<Rightarrow> EnteredDevice" where
  "mapDeviceFrequentComputer f now1 now2 =
     \<lparr>id_ent = id_dev (device f), brand_ent = brand (device f), model_ent = model (device f),
      owner_ent = owner (device f),
      photoURL_ent = None, updatedAt_ent = now1, checkinAt_ent = Some now2,
      checkoutAt_ent = None, serial_ent = None, type_ent = frequent_computer\<rparr>"

definition InMemory_getComputers ::
  "DeviceCriteria \<Rightarrow> InMemoryDeviceRepository \<Rightarrow> Computer list" where
  "InMemory_getComputers criteria s = values_of (computers s)"

definition InMemory_getMedicalDevices ::
  "DeviceCriteria \<Rightarrow> InMemoryDeviceRepository \<Rightarrow> MedicalDevice list" where
  "InMemory_getMedicalDevices criteria s = values_of (medicalDevices s)"

definition InMemory_registerFrequentComputer ::
  "FrequentComputer \<Rightarrow> InMemoryDeviceRepository
     \<Rightarrow> (error + FrequentComputer) \<times> InMemoryDeviceRepository" where
  "InMemory_registerFrequentComputer f s =
     (Inr f, s\<lparr>frequentComputer := AList.update (id_dev (device f)) f (frequentComputer s)\<rparr>)"

definition InMemory_getFrequentComputers ::
  "DeviceCriteria \<Rightarrow> InMemoryDeviceRepository \<Rightarrow> FrequentComputer list" where
  "InMemory_getFrequentComputers criteria s = values_of (frequentComputer s)"

definition InMemory_getEnteredDevices ::
  "DeviceCriteria \<Rightarrow> InMemoryDeviceRepository \<Rightarrow> EnteredDevice list" where
  "InMemory_getEnteredDevices criteria s = values_of (enteredDevices s)"

definition InMemory_checkinComputer ::
  "Computer \<Rightarrow> Date \<Rightarrow> Date \<Rightarrow> InMemoryDeviceRepository
     \<Rightarrow> (error + Computer) \<times> InMemoryDeviceRepository" where
  "InMemory_checkinComputer c now1 now2 s =
     (Inr c,
      s\<lparr>computers := AList.update (id_dev c) c (computers s),
        enteredDevices :=
          AList.update (id_dev c) (mapDeviceFromComputer c now1 now2) (enteredDevices s)\<rparr>)"

definition InMemory_checkinMedicalDevice ::
  "MedicalDevice \<Rightarrow> Date \<Rightarrow> Date \<Rightarrow> InMemoryDeviceRepository
     \<Rightarrow> (error + MedicalDevice) \<times> InMemoryDeviceRepository" where
  "InMemory_checkinMedicalDevice d now1 now2 s =
     (Inr d,
      s\<lparr>medicalDevices := AList.update (id_dev d) d (medicalDevices s),
        enteredDevices :=
          AList.update (id_dev d) (mapDeviceFromMedicalDevice d now1 now2) (enteredDevices s)\<rparr>)"

definition InMemory_checkinFrequentComputer ::
  "DeviceId \<Rightarrow> Date \<Rightarrow> Date \<Rightarrow> Date \<Rightarrow> InMemoryDeviceRepository
     \<Rightarrow> (error + FrequentComputer) \<times> InMemoryDeviceRepository" where
  "InMemory_checkinFrequentComputer i datetime now1 now2 s =
     (case map_of (frequentComputer s) i of
        None \<Rightarrow> (Inl DeviceNotFound, s)
      | Some f \<Rightarrow>
          (let f' = f\<lparr>device := (device f)\<lparr>checkinAt := Some datetime\<rparr>\<rparr>
           in (Inr f',
               s\<lparr>frequentComputer := AList.update i f' (frequentComputer s),
                 enteredDevices :=
                   AList.update i (mapDeviceFrequentComputer f' now1 now2) (enteredDevices s)\<rparr>)))"

text \<open>
  \<open>checkoutDevice\<close> looks the id up in the entered-devices index and stamps the one map
  that the entry's tag names. \<open>this.computers.get(id)!.checkoutAt = datetime\<close> on a
  missing key is a property write on \<open>undefined\<close>: a \<open>TypeError\<close>, thrown before the
  index entry is deleted.
\<close>

definition InMemory_checkoutDevice ::
  "DeviceId \<Rightarrow> Date \<Rightarrow> InMemoryDeviceRepository \<Rightarrow> (error + unit) \<times> InMemoryDeviceRepository" where
  "InMemory_checkoutDevice i datetime s =
     (case map_of (enteredDevices s) i of
        None \<Rightarrow> (Inl DeviceNotFound, s)
      | Some dev \<Rightarrow>
          (case type_ent dev of
             computer \<Rightarrow>
               (case map_of (computers s) i of
                  None \<Rightarrow> (Inl TypeError, s)
                | Some c \<Rightarrow>
                    (Inr (),
                     s\<lparr>computers := AList.update i (c\<lparr>checkoutAt := Some datetime\<rparr>) (computers s),
                       enteredDevices := AList.delete i (enteredDevices s)\<rparr>))
           | medical_device \<Rightarrow>
               (case map_of (medicalDevices s) i of
                  None \<Rightarrow> (Inl TypeError, s)
                | Some d \<Rightarrow>
                    (Inr (),
                     s\<lparr>medicalDevices :=
                         AList.update i (d\<lparr>checkoutAt := Some datetime\<rparr>) (medicalDevices s),
                       enteredDevices := AList.delete i (enteredDevices s)\<rparr>))
           | frequent_computer \<Rightarrow>
               (case map_of (frequentComputer s) i of
                  None \<Rightarrow> (Inl TypeError, s)
                | Some f \<Rightarrow>
                    (Inr (),
                     s\<lparr>frequentComputer :=
                         AList.update i (f\<lparr>device := (device f)\<lparr>checkoutAt := Some datetime\<rparr>\<rparr>)
                           (frequentComputer s),
                       enteredDevices := AList.delete i (enteredDevices s)\<rparr>))))"

definition InMemory_isDeviceEntered :: "DeviceId \<Rightarrow> InMemoryDeviceRepository \<Rightarrow> bool" where
  "InMemory_isDeviceEntered i s = has (enteredDevices s) i"

definition InMemory_isFrequentComputerRegistered ::
  "DeviceId \<Rightarrow> InMemoryDeviceRepository \<Rightarrow> bool" where
  "InMemory_isFrequentComputerRegistered i s = has (frequentComputer s) i"


section \<open>The storage backend behind the Supabase repository\<close>

text \<open>
  The Supabase repository talks to three tables through a query-builder client. A row
  has the columns the repository writes and reads; \<open>medical_devices\<close> adds
  \<open>serial\<close>, \<open>frequent_computers\<close> adds the two URLs.
\<close>

record row =
  col_id :: string
  col_brand :: string
  col_model :: string
  col_owner_id :: string
  col_owner_name :: string
  col_photo_url :: string
  col_updated_at :: Date
  col_checkin_at :: "Date option"
  col_checkout_at :: "Date option"

record med_row = row +
  col_serial :: string

record freq_row = row +
  col_checkin_url :: string
  col_checkout_url :: string

datatype table = computers_table | medical_devices_table | frequent_computers_table

datatype verb = Insert | Update | Select

text \<open>
  The backend state: the three tables, the requests sent so far (in order), the requests
  that the store fails (\<open>faults db n\<close> is the error of request number \<open>n\<close>, if it
  fails for a reason of the store's own, such as an outage), and the order the store sorts
  column values by.
\<close>

record Supabase =
  tbl_computers :: "row list"
  tbl_medical_devices :: "med_row list"
  tbl_frequent_computers :: "freq_row list"
  requests :: "(table \<times> verb) list"
  faults :: "nat \<Rightarrow> backend_error option"
  collation :: "cell \<Rightarrow> cell \<Rightarrow> bool"

definition fault_now :: "Supabase \<Rightarrow> backend_error option" where
  "fault_now db = faults db (length (requests db))"

definition issue :: "table \<times> verb \<Rightarrow> Supabase \<Rightarrow> Supabase" where
  "issue rq db = db\<lparr>requests := requests db @ [rq]\<rparr>"

definition timestamp_cell :: "Date option \<Rightarrow> cell" where
  "timestamp_cell t = (case t of None \<Rightarrow> Null | Some d \<Rightarrow> Timestamp d)"

text \<open>Column names of the tables, as a filter or a sort names them.\<close>

definition base_column :: "string \<Rightarrow> ('a row_scheme \<Rightarrow> cell) option" where
  "base_column name =
     (if name = ''id'' then Some (\<lambda>r. Text (col_id r))
      else if name = ''brand'' then Some (\<lambda>r. Text (col_brand r))
      else if name = ''model'' then Some (\<lambda>r. Text (col_model r))
      else if name = ''owner_id'' then Some (\<lambda>r. Text (col_owner_id r))
      else if name = ''owner_name'' then Some (\<lambda>r. Text (col_owner_name r))
      else if name = ''photo_url'' then Some (\<lambda>r. Text (col_photo_url r))
      else if name = ''updated_at'' then Some (\<lambda>r. Timestamp (col_updated_at r))
      else if name = ''checkin_at'' then Some (\<lambda>r. timestamp_cell (col_checkin_at r))
      else if name = ''checkout_at'' then Some (\<lambda>r. timestamp_cell (col_checkout_at r))
      else None)"

definition medical_devices_column :: "string \<Rightarrow> (med_row \<Rightarrow> cell) option" where
  "medical_devices_column name =
     (if name = ''serial'' then Some (\<lambda>r. Text (col_serial r)) else base_column name)"

definition frequent_computers_column :: "string \<Rightarrow> (freq_row \<Rightarrow> cell) option" where
  "frequent_computers_column name =
     (if name = ''checkin_url'' then Some (\<lambda>r. Text (col_checkin_url r))
      else if name = ''checkout_url'' then Some (\<lambda>r. Text (col_checkout_url r))
      else base_column name)"

subsection \<open>The query builder\<close>

text \<open>
  \<open>from(t).select("*")\<close> starts a query; \<open>eq\<close>, \<open>order\<close>, \<open>limit\<close> and
  \<open>range\<close> set its parameters. \<open>range(from, to)\<close> sets the offset to \<open>from\<close> and
  the limit to \<open>to - from + 1\<close>, replacing a limit set before.
\<close>

record query =
  q_eq :: "(string \<times> cell) option"
  q_order :: "(string \<times> bool) option"
  q_limit :: "int option"
  q_offset :: "int option"

definition select_all :: query where
  "select_all = \<lparr>q_eq = None, q_order = None, q_limit = None, q_offset = None\<rparr>"

definition eq :: "string \<Rightarrow> cell \<Rightarrow> query \<Rightarrow> query" where
  "eq field v q = q\<lparr>q_eq := Some (field, v)\<rparr>"

definition order :: "string \<Rightarrow> bool \<Rightarrow> query \<Rightarrow> query" where
  "order field ascending q = q\<lparr>q_order := Some (field, ascending)\<rparr>"

definition limit_q :: "int \<Rightarrow> query \<Rightarrow> query" where
  "limit_q n q = q\<lparr>q_limit := Some n\<rparr>"

definition range_q :: "int \<Rightarrow> int \<Rightarrow> query \<Rightarrow> query" where
  "range_q from to q = q\<lparr>q_offset := Some from, q_limit := Some (to - from + 1)\<rparr>"

text \<open>
  The statements that \<open>getFrequentComputers\<close>, \<open>getComputers\<close> and
  \<open>getMedicalDevices\<close> each repeat to turn the criteria into a query.
\<close>

definition criteria_query :: "DeviceCriteria \<Rightarrow> query" where
  "criteria_query criteria =
     (let q0 = select_all;
          q1 = (case filterBy criteria of None \<Rightarrow> q0 | Some (field, v) \<Rightarrow> eq field v q0);
          q2 = (case sortBy criteria of None \<Rightarrow> q1
                | Some (field, isAscending) \<Rightarrow> order field isAscending q1);
          q3 = (case limit criteria of None \<Rightarrow> q2 | Some n \<Rightarrow> limit_q (int n) q2);
          q4 = (case offset criteria of None \<Rightarrow> q3
                | Some k \<Rightarrow>
                    range_q (int k)
                      (int k + (case limit criteria of None \<Rightarrow> 10 | Some n \<Rightarrow> int n) - 1) q3)
      in q4)"

subsection \<open>What the store does with a request\<close>

fun insort_by :: "('a \<Rightarrow> 'a \<Rightarrow> bool) \<Rightarrow> 'a \<Rightarrow> 'a list \<Rightarrow> 'a list" where
  "insort_by le x [] = [x]"
| "insort_by le x (y # ys) = (if le x y then x # y # ys else y # insort_by le x ys)"

definition sort_rows :: "(cell \<Rightarrow> cell \<Rightarrow> bool) \<Rightarrow> ('r \<Rightarrow> cell) \<Rightarrow> bool \<Rightarrow> 'r list \<Rightarrow> 'r list" where
  "sort_rows le col ascending rows =
     foldr (insort_by (\<lambda>a b. if ascending then le (col a) (col b) else le (col b) (col a)))
       rows []"

definition window :: "query \<Rightarrow> 'r list \<Rightarrow> 'r list" where
  "window q rows =
     (let rows1 = (case q_offset q of None \<Rightarrow> rows | Some k \<Rightarrow> drop (nat k) rows)
      in case q_limit q of None \<Rightarrow> rows1 | Some n \<Rightarrow> take (nat n) rows1)"

text \<open>
  A select: the rows whose column equals the filter value (a null value equals nothing),
  sorted when an order is given, then cut to the window. A column the table does not have
  is an error of the store.
\<close>

definition run_select ::
  "(string \<Rightarrow> ('r \<Rightarrow> cell) option) \<Rightarrow> (cell \<Rightarrow> cell \<Rightarrow> bool) \<Rightarrow> query \<Rightarrow> 'r list
     \<Rightarrow> backend_error + 'r list" where
  "run_select columns le q rows =
     (case (case q_eq q of None \<Rightarrow> Inr rows
            | Some (field, v) \<Rightarrow>
                (case columns field of None \<Rightarrow> Inl UnknownColumn
                 | Some col \<Rightarrow> Inr (filter (\<lambda>r. v \<noteq> Null \<and> col r = v) rows))) of
        Inl e \<Rightarrow> Inl e
      | Inr rows1 \<Rightarrow>
          (case (case q_order q of None \<Rightarrow> Inr rows1
                 | Some (field, ascending) \<Rightarrow>
                     (case columns field of None \<Rightarrow> Inl UnknownColumn
                      | Some col \<Rightarrow> Inr (sort_rows le col ascending rows1))) of
             Inl e \<Rightarrow> Inl e
           | Inr rows2 \<Rightarrow> Inr (window q rows2)))"

text \<open>
  Modelled from the spec: the schema of the tables is not among the sources; in each
  table \<open>id\<close> is the primary key, so the store refuses to insert a row whose id is present.
\<close>

definition insert_row :: "'a row_scheme \<Rightarrow> 'a row_scheme list \<Rightarrow> backend_error + 'a row_scheme list" where
  "insert_row r rows =
     (if list_ex (\<lambda>x. col_id x = col_id r) rows then Inl UniqueViolation else Inr (rows @ [r]))"

text \<open>An update with \<open>.eq("id", id)\<close>: every row with that id is changed; none is no error.\<close>

definition update_rows :: "DeviceId \<Rightarrow> ('a row_scheme \<Rightarrow> 'a row_scheme) \<Rightarrow> 'a row_scheme list \<Rightarrow> 'a row_scheme list" where
  "update_rows i f rows = map (\<lambda>r. if col_id r = i then f r else r) rows"

definition rows_with_id :: "DeviceId \<Rightarrow> 'a row_scheme list \<Rightarrow> 'a row_scheme list" where
  "rows_with_id i rows = filter (\<lambda>r. col_id r = i) rows"

text \<open>
  \<open>.single()\<close> wants exactly one row and is an error otherwise; \<open>.maybeSingle()\<close>
  gives null for no row and is an error for more than one.
\<close>

definition single :: "'r list \<Rightarrow> backend_error + 'r" where
  "single rows = (case rows of [r] \<Rightarrow> Inr r | _ \<Rightarrow> Inl NoSingleRow)"

definition maybeSingle :: "'r list \<Rightarrow> backend_error + 'r option" where
  "maybeSingle rows = (case rows of [] \<Rightarrow> Inr None | [r] \<Rightarrow> Inr (Some r) | _ \<Rightarrow> Inl NoSingleRow)"


section \<open>The Supabase repository\<close>

text \<open>The row mappings that the methods write out inline, in both directions.\<close>

definition computer_of_row :: "'a row_scheme \<Rightarrow> Computer" where
  "computer_of_row r =
     \<lparr>id_dev = col_id r, brand = col_brand r, model = col_model r,
      owner = \<lparr>id_owner = col_owner_id r, name_owner = col_owner_name r\<rparr>,
      photoURL = col_photo_url r, updatedAt = col_updated_at r,
      checkinAt = col_checkin_at r, checkoutAt = col_checkout_at r\<rparr>"

definition medical_device_of_row :: "med_row \<Rightarrow> MedicalDevice" where
  "medical_device_of_row r =
     \<lparr>id_dev = col_id r, brand = col_brand r, model = col_model r,
      owner = \<lparr>id_owner = col_owner_id r, name_owner = col_owner_name r\<rparr>,
      photoURL = col_photo_url r, updatedAt = col_updated_at r,
      checkinAt = col_checkin_at r, checkoutAt = col_checkout_at r, serial = col_serial r\<rparr>"

definition frequent_computer_of_row :: "freq_row \<Rightarrow> FrequentComputer" where
  "frequent_computer_of_row r =
     \<lparr>device = computer_of_row r,
      checkinURL = col_checkin_url r, checkoutURL = col_checkout_url r\<rparr>"

text \<open>
  The row of \<open>registerFrequentComputer\<close>: \<open>checkin_at\<close> is the device's own or null,
  \<open>checkout_at\<close> is not sent and stays null.
\<close>

definition row_of_frequent_computer :: "FrequentComputer \<Rightarrow> freq_row" where
  "row_of_frequent_computer f =
     \<lparr>col_id = id_dev (device f), col_brand = brand (device f), col_model = model (device f),
      col_owner_id = id_owner (owner (device f)), col_owner_name = name_owner (owner (device f)),
      col_photo_url = photoURL (device f), col_updated_at = updatedAt (device f),
      col_checkin_at = checkinAt (device f), col_checkout_at = None,
      col_checkin_url = checkinURL f, col_checkout_url = checkoutURL f\<rparr>"

text \<open>The rows of the two check-ins: \<open>checkin_at\<close> is the clock reading \<open>now\<close>.\<close>

definition row_of_computer :: "Computer \<Rightarrow> Date \<Rightarrow> row" where
  "row_of_computer c now =
     \<lparr>col_id = id_dev c, col_brand = brand c, col_model = model c,
      col_owner_id = id_owner (owner c), col_owner_name = name_owner (owner c),
      col_photo_url = photoURL c, col_updated_at = updatedAt c,
      col_checkin_at = Some now, col_checkout_at = None\<rparr>"

definition row_of_medical_device :: "MedicalDevice \<Rightarrow> Date \<Rightarrow> med_row" where
  "row_of_medical_device d now =
     \<lparr>col_id = id_dev d, col_brand = brand d, col_model = model d,
      col_owner_id = id_owner (owner d), col_owner_name = name_owner (owner d),
      col_photo_url = photoURL d, col_updated_at = updatedAt d,
      col_checkin_at = Some now, col_checkout_at = None, col_serial = serial d\<rparr>"

subsection \<open>Frequent computers\<close>

definition Supabase_registerFrequentComputer ::
  "FrequentComputer \<Rightarrow> Supabase \<Rightarrow> (error + FrequentComputer) \<times> Supabase" where
  "Supabase_registerFrequentComputer f db =
     (let db1 = issue (frequent_computers_table, Insert) db
      in case fault_now db of
           Some e \<Rightarrow> (Inl (Backend e), db1)
         | None \<Rightarrow>
             (case insert_row (row_of_frequent_computer f) (tbl_frequent_computers db) of
                Inl e \<Rightarrow> (Inl (Backend e), db1)
              | Inr rows \<Rightarrow> (Inr f, db1\<lparr>tbl_frequent_computers := rows\<rparr>)))"

definition Supabase_getFrequentComputers ::
  "DeviceCriteria \<Rightarrow> Supabase \<Rightarrow> (error + FrequentComputer list) \<times> Supabase" where
  "Supabase_getFrequentComputers criteria db =
     (let query = criteria_query criteria;
          db1 = issue (frequent_computers_table, Select) db
      in case fault_now db of
           Some e \<Rightarrow> (Inl (Backend e), db1)
         | None \<Rightarrow>
             (case run_select frequent_computers_column (collation db) query
                     (tbl_frequent_computers db) of
                Inl e \<Rightarrow> (Inl (Backend e), db1)
              | Inr data \<Rightarrow> (Inr (map frequent_computer_of_row data), db1)))"

text \<open>
  \<open>update(...).eq("id", id).select("*").single()\<close>: when the update does not give back
  exactly one row, the store answers with an error and keeps the table as it was.
\<close>

definition Supabase_checkinFrequentComputer ::
  "DeviceId \<Rightarrow> Date \<Rightarrow> Supabase \<Rightarrow> (error + FrequentComputer) \<times> Supabase" where
  "Supabase_checkinFrequentComputer i datetime db =
     (let db1 = issue (frequent_computers_table, Update) db
      in case fault_now db of
           Some e \<Rightarrow> (Inl (Backend e), db1)
         | None \<Rightarrow>
             (let rows = update_rows i (\<lambda>r. r\<lparr>col_checkin_at := Some datetime\<rparr>)
                           (tbl_frequent_computers db)
              in case single (rows_with_id i rows) of
                   Inl e \<Rightarrow> (Inl (Backend e), db1)
                 | Inr data \<Rightarrow>
                     (Inr (frequent_computer_of_row data), db1\<lparr>tbl_frequent_computers := rows\<rparr>)))"

definition Supabase_isFrequentComputerRegistered ::
  "DeviceId \<Rightarrow> Supabase \<Rightarrow> (error + bool) \<times> Supabase" where
  "Supabase_isFrequentComputerRegistered i db =
     (let db1 = issue (frequent_computers_table, Select) db
      in case fault_now db of
           Some e \<Rightarrow> (Inl (Backend e), db1)
         | None \<Rightarrow>
             (case maybeSingle (rows_with_id i (tbl_frequent_computers db)) of
                Inl e \<Rightarrow> (Inl (Backend e), db1)
              | Inr data \<Rightarrow> (Inr (data \<noteq> None), db1)))"

subsection \<open>Computers\<close>

definition Supabase_checkinComputer ::
  "Computer \<Rightarrow> Date \<Rightarrow> Supabase \<Rightarrow> (error + Computer) \<times> Supabase" where
  "Supabase_checkinComputer c now db =
     (let db1 = issue (computers_table, Insert) db
      in case fault_now db of
           Some e \<Rightarrow> (Inl (Backend e), db1)
         | None \<Rightarrow>
             (case insert_row (row_of_computer c now) (tbl_computers db) of
                Inl e \<Rightarrow> (Inl (Backend e), db1)
              | Inr rows \<Rightarrow> (Inr (c\<lparr>checkinAt := Some now\<rparr>), db1\<lparr>tbl_computers := rows\<rparr>)))"

definition Supabase_getComputers ::
  "DeviceCriteria \<Rightarrow> Supabase \<Rightarrow> (error + Computer list) \<times> Supabase" where
  "Supabase_getComputers criteria db =
     (let query = criteria_query criteria;
          db1 = issue (computers_table, Select) db
      in case fault_now db of
           Some e \<Rightarrow> (Inl (Backend e), db1)
         | None \<Rightarrow>
             (case run_select base_column (collation db) query (tbl_computers db) of
                Inl e \<Rightarrow> (Inl (Backend e), db1)
              | Inr data \<Rightarrow> (Inr (map computer_of_row data), db1)))"

subsection \<open>Medical devices\<close>

definition Supabase_checkinMedicalDevice ::
  "MedicalDevice \<Rightarrow> Date \<Rightarrow> Supabase \<Rightarrow> (error + MedicalDevice) \<times> Supabase" where
  "Supabase_checkinMedicalDevice d now db =
     (let db1 = issue (medical_devices_table, Insert) db
      in case fault_now db of
           Some e \<Rightarrow> (Inl (Backend e), db1)
         | None \<Rightarrow>
             (case insert_row (row_of_medical_device d now) (tbl_medical_devices db) of
                Inl e \<Rightarrow> (Inl (Backend e), db1)
              | Inr rows \<Rightarrow> (Inr (d\<lparr>checkinAt := Some now\<rparr>), db1\<lparr>tbl_medical_devices := rows\<rparr>)))"

definition Supabase_getMedicalDevices ::
  "DeviceCriteria \<Rightarrow> Supabase \<Rightarrow> (error + MedicalDevice list) \<times> Supabase" where
  "Supabase_getMedicalDevices criteria db =
     (let query = criteria_query criteria;
          db1 = issue (medical_devices_table, Select) db
      in case fault_now db of
           Some e \<Rightarrow> (Inl (Backend e), db1)
         | None \<Rightarrow>
             (case run_select medical_devices_column (collation db) query
                     (tbl_medical_devices db) of
                Inl e \<Rightarrow> (Inl (Backend e), db1)
              | Inr data \<Rightarrow> (Inr (map medical_device_of_row data), db1)))"

subsection \<open>All devices\<close>

text \<open>\<open>{...computer, type: "computer"}\<close> and \<open>{...device, type: "medical-device"}\<close>.\<close>

definition entered_of_computer :: "Computer \<Rightarrow> EnteredDevice" where
  "entered_of_computer c =
     \<lparr>id_ent = id_dev c, brand_ent = brand c, model_ent = model c, owner_ent = owner c,
      photoURL_ent = Some (photoURL c), updatedAt_ent = updatedAt c,
      checkinAt_ent = checkinAt c, checkoutAt_ent = checkoutAt c,
      serial_ent = None, type_ent = computer\<rparr>"

definition entered_of_medical_device :: "MedicalDevice \<Rightarrow> EnteredDevice" where
  "entered_of_medical_device d =
     \<lparr>id_ent = id_dev d, brand_ent = brand d, model_ent = model d, owner_ent = owner d,
      photoURL_ent = Some (photoURL d), updatedAt_ent = updatedAt d,
      checkinAt_ent = checkinAt d, checkoutAt_ent = checkoutAt d,
      serial_ent = Some (serial d), type_ent = medical_device\<rparr>"

text \<open>
  \<open>Promise.all\<close> starts both queries before it waits, so both requests are sent whatever
  the first one answers; the call fails when either query fails. The two are reads, so the
  order in which they reach the store does not change what they return.
\<close>

definition Supabase_getEnteredDevices ::
  "DeviceCriteria \<Rightarrow> Supabase \<Rightarrow> (error + EnteredDevice list) \<times> Supabase" where
  "Supabase_getEnteredDevices criteria db =
     (let (r1, db1) = Supabase_getComputers criteria db;
          (r2, db2) = Supabase_getMedicalDevices criteria db1
      in case r1 of
           Inl e \<Rightarrow> (Inl e, db2)
         | Inr comps \<Rightarrow>
             (case r2 of
                Inl e \<Rightarrow> (Inl e, db2)
              | Inr meds \<Rightarrow>
                  (Inr (map entered_of_computer comps @ map entered_of_medical_device meds),
                   db2)))"

subsection \<open>Checkout and checks\<close>

text \<open>
  One \<open>update({checkout_at}).eq("id", id)\<close> request against a table: the answer's
  \<open>error\<close> and the state after it.
\<close>

definition update_checkout_computers ::
  "DeviceId \<Rightarrow> Date \<Rightarrow> Supabase \<Rightarrow> backend_error option \<times> Supabase" where
  "update_checkout_computers i datetime db =
     (let db1 = issue (computers_table, Update) db
      in case fault_now db of
           Some e \<Rightarrow> (Some e, db1)
         | None \<Rightarrow>
             (None, db1\<lparr>tbl_computers :=
                 update_rows i (\<lambda>r. r\<lparr>col_checkout_at := Some datetime\<rparr>) (tbl_computers db)\<rparr>))"

definition update_checkout_medical_devices ::
  "DeviceId \<Rightarrow> Date \<Rightarrow> Supabase \<Rightarrow> backend_error option \<times> Supabase" where
  "update_checkout_medical_devices i datetime db =
     (let db1 = issue (medical_devices_table, Update) db
      in case fault_now db of
           Some e \<Rightarrow> (Some e, db1)
         | None \<Rightarrow>
             (None, db1\<lparr>tbl_medical_devices :=
                 update_rows i (\<lambda>r. r\<lparr>col_checkout_at := Some datetime\<rparr>)
                   (tbl_medical_devices db)\<rparr>))"

definition update_checkout_frequent_computers ::
  "DeviceId \<Rightarrow> Date \<Rightarrow> Supabase \<Rightarrow> backend_error option \<times> Supabase" where
  "update_checkout_frequent_computers i datetime db =
     (let db1 = issue (frequent_computers_table, Update) db
      in case fault_now db of
           Some e \<Rightarrow> (Some e, db1)
         | None \<Rightarrow>
             (None, db1\<lparr>tbl_frequent_computers :=
                 update_rows i (\<lambda>r. r\<lparr>col_checkout_at := Some datetime\<rparr>)
                   (tbl_frequent_computers db)\<rparr>))"

text \<open>
  \<open>checkoutDevice\<close> throws the error of the first and of the second update; the answer
  of the third is not looked at.
\<close>

definition Supabase_checkoutDevice ::
  "DeviceId \<Rightarrow> Date \<Rightarrow> Supabase \<Rightarrow> (error + unit) \<times> Supabase" where
  "Supabase_checkoutDevice i datetime db =
     (let (compError, db1) = update_checkout_computers i datetime db
      in case compError of
           Some e \<Rightarrow> (Inl (Backend e), db1)
         | None \<Rightarrow>
             (let (medError, db2) = update_checkout_medical_devices i datetime db1
              in case medError of
                   Some e \<Rightarrow> (Inl (Backend e), db2)
                 | None \<Rightarrow>
                     (let (freqError, db3) = update_checkout_frequent_computers i datetime db2
                      in (Inr (), db3))))"

text \<open>
  \<open>select("id").eq("id", id).maybeSingle()\<close> against a table: only \<open>data\<close> is read from
  the answer, and it is null when the request fails.
\<close>

definition select_id_data :: "'a row_scheme list \<Rightarrow> DeviceId \<Rightarrow> Supabase \<Rightarrow> DeviceId option" where
  "select_id_data rows i db =
     (case fault_now db of
        Some e \<Rightarrow> None
      | None \<Rightarrow>
          (case maybeSingle (rows_with_id i rows) of
             Inl e \<Rightarrow> None
           | Inr data \<Rightarrow> map_option col_id data))"

definition Supabase_isDeviceEntered :: "DeviceId \<Rightarrow> Supabase \<Rightarrow> bool \<times> Supabase" where
  "Supabase_isDeviceEntered i db =
     (let comp = select_id_data (tbl_computers db) i db;
          db1 = issue (computers_table, Select) db
      in if comp \<noteq> None then (True, db1)
         else
           (let med = select_id_data (tbl_medical_devices db1) i db1;
                db2 = issue (medical_devices_table, Select) db1
            in if med \<noteq> None then (True, db2) else (False, db2)))"


section \<open>Reachable states of the in-memory repository\<close>

text \<open>
  The states that the public methods can produce from a new repository, and the property
  of the frequent-computer map that they keep: every record is stored under its own
  device id.
\<close>

inductive reachable :: "InMemoryDeviceRepository \<Rightarrow> bool" where
  reachable_new: "reachable InMemory_new"
| reachable_registerFrequentComputer:
    "reachable s \<Longrightarrow> reachable (snd (InMemory_registerFrequentComputer f s))"
| reachable_checkinComputer:
    "reachable s \<Longrightarrow> reachable (snd (InMemory_checkinComputer c now1 now2 s))"
| reachable_checkinMedicalDevice:
    "reachable s \<Longrightarrow> reachable (snd (InMemory_checkinMedicalDevice d now1 now2 s))"
| reachable_checkinFrequentComputer:
    "reachable s \<Longrightarrow> reachable (snd (InMemory_checkinFrequentComputer i datetime now1 now2 s))"
| reachable_checkoutDevice:
    "reachable s \<Longrightarrow> reachable (snd (InMemory_checkoutDevice i datetime s))"

definition frequent_keys_agree :: "InMemoryDeviceRepository \<Rightarrow> bool" where
  "frequent_keys_agree s = list_all (\<lambda>(k, f). id_dev (device f) = k) (frequentComputer s)"


section \<open>Criteria and concrete repositories used below\<close>

definition id_filter :: "DeviceId \<Rightarrow> DeviceCriteria" where
  "id_filter i = \<lparr>filterBy = Some (''id'', Text i), sortBy = None, limit = None, offset = None\<rparr>"

definition unpaged :: "DeviceCriteria \<Rightarrow> DeviceCriteria" where
  "unpaged c = c\<lparr>limit := None, offset := None\<rparr>"

definition second_page :: DeviceCriteria where
  "second_page = \<lparr>filterBy = None, sortBy = None, limit = Some 10, offset = Some 10\<rparr>"

definition example_computer :: Computer where
  "example_computer =
     \<lparr>id_dev = ''comp-6'', brand = ''Acer'', model = ''Swift'',
      owner = \<lparr>id_owner = ''owner-6'', name_owner = ''Frank''\<rparr>,
      photoURL = ''http://example.com/photo6.png'', updatedAt = 1000,
      checkinAt = None, checkoutAt = None\<rparr>"

definition example_medical_device :: MedicalDevice where
  "example_medical_device =
     \<lparr>id_dev = ''comp-6'', brand = ''MedEquip'', model = ''Scanner'',
      owner = \<lparr>id_owner = ''h-1'', name_owner = ''Hospital''\<rparr>,
      photoURL = ''http://example.com/photo2.png'', updatedAt = 1000,
      checkinAt = None, checkoutAt = None, serial = ''7312-1712-0719''\<rparr>"

definition example_frequent_computer :: FrequentComputer where
  "example_frequent_computer =
     \<lparr>device = example_computer\<lparr>id_dev := ''comp-5''\<rparr>,
      checkinURL = ''http://x/checkin'', checkoutURL = ''http://x/checkout''\<rparr>"

definition example_frequent_computer_again :: FrequentComputer where
  "example_frequent_computer_again =
     \<lparr>device = example_computer\<lparr>id_dev := ''comp-5''\<rparr>,
      checkinURL = ''http://y/checkin'', checkoutURL = ''http://y/checkout''\<rparr>"

definition fifteen_computers :: "Computer list" where
  "fifteen_computers =
     map (\<lambda>i. example_computer\<lparr>id_dev := i\<rparr>)
       [''c01'', ''c02'', ''c03'', ''c04'', ''c05'', ''c06'', ''c07'', ''c08'', ''c09'', ''c10'',
        ''c11'', ''c12'', ''c13'', ''c14'', ''c15'']"

text \<open>In-memory repositories, each built by the repository's own methods.\<close>

definition repo_computer_entered :: InMemoryDeviceRepository where
  "repo_computer_entered = snd (InMemory_checkinComputer example_computer 2000 2001 InMemory_new)"

definition repo_same_id_twice :: InMemoryDeviceRepository where
  "repo_same_id_twice =
     snd (InMemory_checkinMedicalDevice example_medical_device 3000 3001 repo_computer_entered)"

definition repo_frequent_registered :: InMemoryDeviceRepository where
  "repo_frequent_registered =
     snd (InMemory_registerFrequentComputer example_frequent_computer InMemory_new)"

definition repo_frequent_entered :: InMemoryDeviceRepository where
  "repo_frequent_entered =
     snd (InMemory_checkinFrequentComputer ''comp-5'' 4000 4001 4002 repo_frequent_registered)"

definition repo_fifteen :: InMemoryDeviceRepository where
  "repo_fifteen =
     foldl (\<lambda>s c. snd (InMemory_checkinComputer c 2000 2001 s)) InMemory_new fifteen_computers"

text \<open>Stores: an empty one that never fails, one that fails a given request, filled ones.\<close>

definition empty_db :: Supabase where
  "empty_db =
     \<lparr>tbl_computers = [], tbl_medical_devices = [], tbl_frequent_computers = [],
      requests = [], faults = (\<lambda>n. None), collation = (\<lambda>a b. True)\<rparr>"

definition failing_at :: "nat \<Rightarrow> Supabase \<Rightarrow> Supabase" where
  "failing_at k db = db\<lparr>faults := (\<lambda>n. if n = k then Some Unavailable else faults db n)\<rparr>"

definition db_computer :: Supabase where
  "db_computer = snd (Supabase_checkinComputer example_computer 2000 empty_db)"

definition db_frequent :: Supabase where
  "db_frequent = snd (Supabase_registerFrequentComputer example_frequent_computer empty_db)"

definition db_fifteen :: Supabase where
  "db_fifteen =
     foldl (\<lambda>db c. snd (Supabase_checkinComputer c 2000 db)) empty_db fifteen_computers"


section \<open>Basic facts\<close>

lemma has_update: "has (AList.update k v m) k' = (k' = k \<or> has m k')"
  by (simp add: has_def update_conv')

lemma map_of_in_values: "map_of m k = Some v \<Longrightarrow> v \<in> set (values_of m)"
  by (auto simp: values_of_def dest: map_of_SomeD intro: rev_image_eqI)

lemma set_update_subset: "set (AList.update k v al) \<subseteq> insert (k, v) (set al)"
  by (induction al) auto

lemma list_all_update: "list_all P al \<Longrightarrow> P (k, v) \<Longrightarrow> list_all P (AList.update k v al)"
  using set_update_subset [of k v al] by (auto simp: list_all_iff)

lemma issue_simps:
  "tbl_computers (issue rq db) = tbl_computers db"
  "tbl_medical_devices (issue rq db) = tbl_medical_devices db"
  "tbl_frequent_computers (issue rq db) = tbl_frequent_computers db"
  "requests (issue rq db) = requests db @ [rq]"
  "faults (issue rq db) = faults db"
  "collation (issue rq db) = collation db"
  by (simp_all add: issue_def)

lemma rows_with_id_update_rows:
  assumes "\<And>r. col_id (f r) = col_id r"
  shows "rows_with_id i (update_rows j f rows) = update_rows j f (rows_with_id i rows)"
  by (induction rows) (simp_all add: rows_with_id_def update_rows_def assms)

lemma length_update_rows: "length (update_rows j f rows) = length rows"
  by (simp add: update_rows_def)

lemma filter_none: "\<not> list_ex P xs \<Longrightarrow> filter P xs = []"
  by (induction xs) auto

lemmas example_defs =
  example_computer_def example_medical_device_def
  example_frequent_computer_def example_frequent_computer_again_def

lemmas in_memory_defs =
  InMemory_new_def InMemory_checkinComputer_def InMemory_checkinMedicalDevice_def
  InMemory_registerFrequentComputer_def InMemory_checkinFrequentComputer_def
  InMemory_checkoutDevice_def InMemory_isDeviceEntered_def
  InMemory_isFrequentComputerRegistered_def InMemory_getComputers_def
  InMemory_getMedicalDevices_def InMemory_getFrequentComputers_def
  InMemory_getEnteredDevices_def has_def values_of_def

lemmas store_defs =
  empty_db_def failing_at_def fault_now_def issue_def insert_row_def update_rows_def
  rows_with_id_def single_def maybeSingle_def Let_def

lemma repo_computer_entered_eval:
  "repo_computer_entered =
     \<lparr>computers = [(''comp-6'', example_computer)], medicalDevices = [],
      enteredDevices = [(''comp-6'', mapDeviceFromComputer example_computer 2000 2001)],
      frequentComputer = []\<rparr>"
  by (simp add: repo_computer_entered_def in_memory_defs example_computer_def)

lemma repo_same_id_twice_eval:
  "repo_same_id_twice =
     \<lparr>computers = [(''comp-6'', example_computer)],
      medicalDevices = [(''comp-6'', example_medical_device)],
      enteredDevices = [(''comp-6'', mapDeviceFromMedicalDevice example_medical_device 3000 3001)],
      frequentComputer = []\<rparr>"
  by (simp add: repo_same_id_twice_def repo_computer_entered_eval
      InMemory_checkinMedicalDevice_def example_medical_device_def)

lemma repo_frequent_registered_eval:
  "repo_frequent_registered =
     \<lparr>computers = [], medicalDevices = [], enteredDevices = [],
      frequentComputer = [(''comp-5'', example_frequent_computer)]\<rparr>"
  by (simp add: repo_frequent_registered_def in_memory_defs example_defs)

lemma repo_frequent_entered_eval:
  "repo_frequent_entered =
     \<lparr>computers = [], medicalDevices = [],
      enteredDevices =
        [(''comp-5'',
          mapDeviceFrequentComputer
            (example_frequent_computer
               \<lparr>device := (device example_frequent_computer)\<lparr>checkinAt := Some 4000\<rparr>\<rparr>) 4001 4002)],
      frequentComputer =
        [(''comp-5'',
          example_frequent_computer
            \<lparr>device := (device example_frequent_computer)\<lparr>checkinAt := Some 4000\<rparr>\<rparr>)]\<rparr>"
  by (simp add: repo_frequent_entered_def repo_frequent_registered_eval
      InMemory_checkinFrequentComputer_def Let_def)

lemma db_computer_eval:
  "db_computer =
     \<lparr>tbl_computers = [row_of_computer example_computer 2000], tbl_medical_devices = [],
      tbl_frequent_computers = [], requests = [(computers_table, Insert)],
      faults = (\<lambda>n. None), collation = (\<lambda>a b. True)\<rparr>"
  by (simp add: db_computer_def Supabase_checkinComputer_def store_defs)

lemma db_frequent_eval:
  "db_frequent =
     \<lparr>tbl_computers = [], tbl_medical_devices = [],
      tbl_frequent_computers = [row_of_frequent_computer example_frequent_computer],
      requests = [(frequent_computers_table, Insert)],
      faults = (\<lambda>n. None), collation = (\<lambda>a b. True)\<rparr>"
  by (simp add: db_frequent_def Supabase_registerFrequentComputer_def store_defs)

lemma db_fifteen_eval:
  "length (tbl_computers db_fifteen) = 15" "fault_now db_fifteen = None"
  by (simp_all add: db_fifteen_def fifteen_computers_def Supabase_checkinComputer_def
      store_defs row_of_computer_def)


section \<open>The invariant of the in-memory frequent-computer map\<close>

lemma keys_agree_map_of:
  "frequent_keys_agree s \<Longrightarrow> map_of (frequentComputer s) k = Some f \<Longrightarrow> id_dev (device f) = k"
  by (auto simp: frequent_keys_agree_def list_all_iff dest: map_of_SomeD)

lemma keys_agree_register:
  "frequent_keys_agree s \<Longrightarrow> frequent_keys_agree (snd (InMemory_registerFrequentComputer f s))"
  by (simp add: frequent_keys_agree_def InMemory_registerFrequentComputer_def list_all_update)

lemma keys_agree_checkinComputer:
  "frequent_keys_agree s \<Longrightarrow> frequent_keys_agree (snd (InMemory_checkinComputer c n1 n2 s))"
  by (simp add: frequent_keys_agree_def InMemory_checkinComputer_def)

lemma keys_agree_checkinMedicalDevice:
  "frequent_keys_agree s \<Longrightarrow> frequent_keys_agree (snd (InMemory_checkinMedicalDevice d n1 n2 s))"
  by (simp add: frequent_keys_agree_def InMemory_checkinMedicalDevice_def)

lemma keys_agree_checkinFrequentComputer:
  assumes "frequent_keys_agree s"
  shows "frequent_keys_agree (snd (InMemory_checkinFrequentComputer i t n1 n2 s))"
proof (cases "map_of (frequentComputer s) i")
  case None
  with assms show ?thesis by (simp add: InMemory_checkinFrequentComputer_def)
next
  case (Some f)
  with assms have "id_dev (device f) = i" by (rule keys_agree_map_of)
  with assms Some show ?thesis
    by (simp add: frequent_keys_agree_def InMemory_checkinFrequentComputer_def Let_def
        list_all_update)
qed

lemma keys_agree_checkoutDevice:
  assumes "frequent_keys_agree s"
  shows "frequent_keys_agree (snd (InMemory_checkoutDevice i t s))"
proof (cases "map_of (enteredDevices s) i")
  case None
  with assms show ?thesis by (simp add: InMemory_checkoutDevice_def)
next
  case entered: (Some dev)
  show ?thesis
  proof (cases "type_ent dev")
    case computer
    with entered assms show ?thesis
      by (cases "map_of (computers s) i")
         (simp_all add: InMemory_checkoutDevice_def frequent_keys_agree_def)
  next
    case medical_device
    with entered assms show ?thesis
      by (cases "map_of (medicalDevices s) i")
         (simp_all add: InMemory_checkoutDevice_def frequent_keys_agree_def)
  next
    case frequent_computer
    show ?thesis
    proof (cases "map_of (frequentComputer s) i")
      case None
      with entered frequent_computer assms show ?thesis
        by (simp add: InMemory_checkoutDevice_def)
    next
      case (Some f)
      with assms have "id_dev (device f) = i" by (rule keys_agree_map_of)
      with Some entered frequent_computer assms show ?thesis
        by (simp add: InMemory_checkoutDevice_def frequent_keys_agree_def list_all_update)
    qed
  qed
qed

lemma reachable_keys_agree: "reachable s \<Longrightarrow> frequent_keys_agree s"
proof (induction rule: reachable.induct)
  case reachable_new
  show ?case by (simp add: frequent_keys_agree_def InMemory_new_def)
qed (simp_all add: keys_agree_register keys_agree_checkinComputer keys_agree_checkinMedicalDevice
       keys_agree_checkinFrequentComputer keys_agree_checkoutDevice)


section \<open>Checkout in the in-memory repository\<close>

lemma checkout_not_entered:
  "map_of (enteredDevices s) i = None \<Longrightarrow>
   InMemory_checkoutDevice i t s = (Inl DeviceNotFound, s)"
  by (simp add: InMemory_checkoutDevice_def)

lemma checkout_success:
  assumes "InMemory_checkoutDevice i t s = (Inr (), s')"
  shows "\<exists>dev. map_of (enteredDevices s) i = Some dev
           \<and> enteredDevices s' = AList.delete i (enteredDevices s)
           \<and> (case type_ent dev of
                 computer \<Rightarrow> has (computers s') i
               | medical_device \<Rightarrow> has (medicalDevices s') i
               | frequent_computer \<Rightarrow> has (frequentComputer s') i)"
proof (cases "map_of (enteredDevices s) i")
  case None
  with assms show ?thesis by (simp add: InMemory_checkoutDevice_def)
next
  case (Some dev)
  show ?thesis
  proof (cases "type_ent dev")
    case computer
    with Some assms show ?thesis
      by (cases "map_of (computers s) i")
         (auto simp: InMemory_checkoutDevice_def has_update)
  next
    case medical_device
    with Some assms show ?thesis
      by (cases "map_of (medicalDevices s) i")
         (auto simp: InMemory_checkoutDevice_def has_update)
  next
    case frequent_computer
    with Some assms show ?thesis
      by (cases "map_of (frequentComputer s) i")
         (auto simp: InMemory_checkoutDevice_def has_update)
  qed
qed

text \<open>
  In the in-memory repository a device is no longer entered after any call of
  \<open>checkoutDevice\<close> that returns.
\<close>

lemma InMemory_not_entered_after_checkout:
  assumes "InMemory_checkoutDevice i t s = (Inr (), s')"
  shows "\<not> InMemory_isDeviceEntered i s'"
proof -
  from checkout_success [OF assms]
  have "enteredDevices s' = AList.delete i (enteredDevices s)" by blast
  then show ?thesis
    by (simp add: InMemory_isDeviceEntered_def has_def delete_conv')
qed


section \<open>Claims about checkout and the entered-devices view\<close>

text \<open>
  Claim C9. In the in-memory repository, after a successful \<open>checkoutDevice(id, t)\<close> a
  second \<open>checkoutDevice(id, t')\<close> throws \<open>DeviceNotFound\<close> and leaves the state as it
  is, although the record with that id is still in the map of its category (the category
  that the deleted index entry named).
\<close>

theorem C9_second_checkout_not_found:
  assumes "InMemory_checkoutDevice i t s = (Inr (), s')"
  shows "InMemory_checkoutDevice i t' s' = (Inl DeviceNotFound, s') \<and>
         (case map_option type_ent (map_of (enteredDevices s) i) of
            None \<Rightarrow> False
          | Some computer \<Rightarrow> has (computers s') i
          | Some medical_device \<Rightarrow> has (medicalDevices s') i
          | Some frequent_computer \<Rightarrow> has (frequentComputer s') i)"
proof -
  from checkout_success [OF assms] obtain dev where
    d: "map_of (enteredDevices s) i = Some dev"
    and e: "enteredDevices s' = AList.delete i (enteredDevices s)"
    and k: "case type_ent dev of
                 computer \<Rightarrow> has (computers s') i
               | medical_device \<Rightarrow> has (medicalDevices s') i
               | frequent_computer \<Rightarrow> has (frequentComputer s') i"
    by blast
  have "map_of (enteredDevices s') i = None"
    by (simp add: e delete_conv')
  then have "InMemory_checkoutDevice i t' s' = (Inl DeviceNotFound, s')"
    by (rule checkout_not_entered)
  with d k show ?thesis by simp
qed

theorem C9_second_checkout_not_found_witness:
  "InMemory_checkoutDevice ''comp-6'' 5000 repo_computer_entered
     = (Inr (), snd (InMemory_checkoutDevice ''comp-6'' 5000 repo_computer_entered))
   \<and> InMemory_checkoutDevice ''comp-6'' 6000
         (snd (InMemory_checkoutDevice ''comp-6'' 5000 repo_computer_entered))
     = (Inl DeviceNotFound, snd (InMemory_checkoutDevice ''comp-6'' 5000 repo_computer_entered))
   \<and> has (computers (snd (InMemory_checkoutDevice ''comp-6'' 5000 repo_computer_entered)))
         ''comp-6''"
proof -
  have run: "InMemory_checkoutDevice ''comp-6'' 5000 repo_computer_entered
     = (Inr (), snd (InMemory_checkoutDevice ''comp-6'' 5000 repo_computer_entered))"
    by (simp add: repo_computer_entered_eval InMemory_checkoutDevice_def
        mapDeviceFromComputer_def)
  have "map_option type_ent (map_of (enteredDevices repo_computer_entered) ''comp-6'')
          = Some computer"
    by (simp add: repo_computer_entered_eval mapDeviceFromComputer_def)
  with C9_second_checkout_not_found [OF run, of 6000] run show ?thesis by simp
qed

text \<open>
  Claim C10. In the in-memory repository, for a frequent computer registered under
  \<open>id\<close>, \<open>checkinFrequentComputer(id, t)\<close> succeeds, and after it
  \<open>isDeviceEntered(id)\<close> is true and \<open>getEnteredDevices({})\<close> holds a record with that
  id tagged "frequent-computer". The repository is any state that its methods can reach.
\<close>

theorem C10_frequent_computer_entered:
  assumes r: "reachable s"
    and reg: "InMemory_isFrequentComputerRegistered i s"
  shows "\<exists>f s'. InMemory_checkinFrequentComputer i t now1 now2 s = (Inr f, s')
           \<and> InMemory_isDeviceEntered i s'
           \<and> (\<exists>e \<in> set (InMemory_getEnteredDevices no_criteria s').
                 id_ent e = i \<and> type_ent e = frequent_computer)"
proof -
  from reg obtain f where f: "map_of (frequentComputer s) i = Some f"
    by (auto simp: InMemory_isFrequentComputerRegistered_def has_def)
  from r have "frequent_keys_agree s" by (rule reachable_keys_agree)
  then have k: "id_dev (device f) = i" using f by (rule keys_agree_map_of)
  define f' where "f' = f\<lparr>device := (device f)\<lparr>checkinAt := Some t\<rparr>\<rparr>"
  define e where "e = mapDeviceFrequentComputer f' now1 now2"
  define s' where "s' = s\<lparr>frequentComputer := AList.update i f' (frequentComputer s),
              enteredDevices := AList.update i e (enteredDevices s)\<rparr>"
  have run: "InMemory_checkinFrequentComputer i t now1 now2 s = (Inr f', s')"
    using f by (simp add: InMemory_checkinFrequentComputer_def Let_def f'_def e_def s'_def)
  have m: "map_of (enteredDevices s') i = Some e"
    by (simp add: s'_def update_conv')
  then have "InMemory_isDeviceEntered i s'"
    by (simp add: InMemory_isDeviceEntered_def has_def)
  moreover from m have "e \<in> set (InMemory_getEnteredDevices no_criteria s')"
    unfolding InMemory_getEnteredDevices_def by (rule map_of_in_values)
  moreover have "id_ent e = i \<and> type_ent e = frequent_computer"
    using k by (simp add: e_def f'_def mapDeviceFrequentComputer_def)
  ultimately show ?thesis using run by blast
qed

theorem C10_frequent_computer_entered_witness:
  "reachable repo_frequent_registered
   \<and> InMemory_isFrequentComputerRegistered ''comp-5'' repo_frequent_registered
   \<and> InMemory_isDeviceEntered ''comp-5'' repo_frequent_entered
   \<and> map (\<lambda>e. (id_ent e, type_ent e)) (InMemory_getEnteredDevices no_criteria repo_frequent_entered)
       = [(''comp-5'', frequent_computer)]"
proof -
  have r: "reachable repo_frequent_registered"
    unfolding repo_frequent_registered_def
    by (rule reachable_registerFrequentComputer [OF reachable_new])
  have reg: "InMemory_isFrequentComputerRegistered ''comp-5'' repo_frequent_registered"
    by (simp add: repo_frequent_registered_eval InMemory_isFrequentComputerRegistered_def has_def)
  from C10_frequent_computer_entered [OF r reg, of 4000 4001 4002]
  have "InMemory_isDeviceEntered ''comp-5'' repo_frequent_entered"
    by (auto simp: repo_frequent_entered_def)
  moreover have "map (\<lambda>e. (id_ent e, type_ent e))
       (InMemory_getEnteredDevices no_criteria repo_frequent_entered)
       = [(''comp-5'', frequent_computer)]"
    by (simp add: repo_frequent_entered_eval InMemory_getEnteredDevices_def values_of_def
        mapDeviceFrequentComputer_def example_defs)
  ultimately show ?thesis using r reg by simp
qed

text \<open>
  Claim C1. \<open>checkoutDevice(id, t)\<close> followed by \<open>isDeviceEntered(id)\<close> gives false for
  an id of the computers or medical-devices category. The in-memory repository does so
  (\<open>InMemory_not_entered_after_checkout\<close>). The Supabase repository does not:
  \<open>isDeviceEntered\<close> asks whether a row with the id exists and \<open>checkoutDevice\<close> only
  stamps \<open>checkout_at\<close> on it, so the computer of the contract test, checked in and then
  checked out while the store answers every request, is still reported as entered.
\<close>

theorem C1_supabase_entered_after_checkout:
  "fst (Supabase_checkoutDevice ''comp-6'' 5000 db_computer) = Inr ()
   \<and> map col_checkout_at (tbl_computers (snd (Supabase_checkoutDevice ''comp-6'' 5000 db_computer)))
       = [Some 5000]
   \<and> fst (Supabase_isDeviceEntered ''comp-6''
            (snd (Supabase_checkoutDevice ''comp-6'' 5000 db_computer))) = True"
  by (simp add: db_computer_eval Supabase_checkoutDevice_def update_checkout_computers_def
      update_checkout_medical_devices_def update_checkout_frequent_computers_def
      Supabase_isDeviceEntered_def select_id_data_def store_defs row_of_computer_def
      example_computer_def)

text \<open>
  The same for every store: if a row with the id is in \<open>computers\<close> before the checkout
  and the store answers the first query of \<open>isDeviceEntered\<close>, the device is reported
  as entered after the checkout.
\<close>

lemma Supabase_checkout_keeps_rows:
  "length (rows_with_id j (tbl_computers (snd (Supabase_checkoutDevice i t db))))
     = length (rows_with_id j (tbl_computers db))"
  by (simp add: Supabase_checkoutDevice_def update_checkout_computers_def
      update_checkout_medical_devices_def update_checkout_frequent_computers_def
      Let_def issue_simps rows_with_id_update_rows length_update_rows
      split: option.splits)

lemma Supabase_entered_if_row:
  assumes "length (rows_with_id i (tbl_computers db)) = 1" and "fault_now db = None"
  shows "fst (Supabase_isDeviceEntered i db) = True"
proof -
  from assms(1) obtain r where "rows_with_id i (tbl_computers db) = [r]"
    by (cases "rows_with_id i (tbl_computers db)") auto
  with assms(2) show ?thesis
    by (simp add: Supabase_isDeviceEntered_def select_id_data_def maybeSingle_def Let_def)
qed

lemma Supabase_entered_after_checkout:
  assumes "rows_with_id i (tbl_computers db) = [r]"
    and "fault_now (snd (Supabase_checkoutDevice i t db)) = None"
  shows "fst (Supabase_isDeviceEntered i (snd (Supabase_checkoutDevice i t db))) = True"
  using assms by (intro Supabase_entered_if_row) (simp_all add: Supabase_checkout_keeps_rows)

text \<open>
  Claim C4, as amended. In the Supabase repository, for every computer \<open>c\<close>, whatever
  its \<open>checkinAt\<close>, whose id is not yet in \<open>computers\<close>, \<open>checkinComputer(c)\<close>, when
  the store answers, inserts a new row, and the stored row and the returned computer both
  carry the clock reading \<open>now\<close> as check-in time in place of the input's. The in-memory
  repository stores and returns the input as it is, with the \<open>checkinAt\<close> that the
  caller gave it.
\<close>

theorem C4_checkinComputer_stamp:
  "(fault_now db = None \<and> rows_with_id (id_dev c) (tbl_computers db) = [] \<longrightarrow>
      Supabase_checkinComputer c now db =
        (Inr (c\<lparr>checkinAt := Some now\<rparr>),
         (issue (computers_table, Insert) db)
           \<lparr>tbl_computers := tbl_computers db @ [row_of_computer c now]\<rparr>)
      \<and> col_checkin_at (row_of_computer c now) = Some now
      \<and> computer_of_row (row_of_computer c now) = c\<lparr>checkinAt := Some now, checkoutAt := None\<rparr>)
   \<and> fst (InMemory_checkinComputer c now1 now2 s) = Inr c
   \<and> map_of (computers (snd (InMemory_checkinComputer c now1 now2 s))) (id_dev c) = Some c"
proof (intro conjI impI)
  assume a: "fault_now db = None \<and> rows_with_id (id_dev c) (tbl_computers db) = []"
  then have "\<not> list_ex (\<lambda>x. col_id x = id_dev c) (tbl_computers db)"
    by (simp add: rows_with_id_def filter_empty_conv list_ex_iff)
  with a show "Supabase_checkinComputer c now db =
        (Inr (c\<lparr>checkinAt := Some now\<rparr>),
         (issue (computers_table, Insert) db)
           \<lparr>tbl_computers := tbl_computers db @ [row_of_computer c now]\<rparr>)"
    by (simp add: Supabase_checkinComputer_def Let_def insert_row_def row_of_computer_def)
next
  show "col_checkin_at (row_of_computer c now) = Some now"
    by (simp add: row_of_computer_def)
next
  show "computer_of_row (row_of_computer c now) = c\<lparr>checkinAt := Some now, checkoutAt := None\<rparr>"
    by (simp add: computer_of_row_def row_of_computer_def)
next
  show "fst (InMemory_checkinComputer c now1 now2 s) = Inr c"
    by (simp add: InMemory_checkinComputer_def)
next
  show "map_of (computers (snd (InMemory_checkinComputer c now1 now2 s))) (id_dev c) = Some c"
    by (simp add: InMemory_checkinComputer_def update_conv')
qed

text \<open>An input that already carries a check-in time of 1500, checked in at 2000.\<close>

theorem C4_checkinComputer_stamp_witness:
  "fst (Supabase_checkinComputer (example_computer\<lparr>checkinAt := Some 1500\<rparr>) 2000 empty_db)
     = Inr (example_computer\<lparr>checkinAt := Some 2000\<rparr>)
   \<and> map col_checkin_at
        (tbl_computers
           (snd (Supabase_checkinComputer (example_computer\<lparr>checkinAt := Some 1500\<rparr>) 2000
                   empty_db)))
       = [Some 2000]"
proof -
  have h: "fault_now empty_db = None
           \<and> rows_with_id (id_dev (example_computer\<lparr>checkinAt := Some 1500\<rparr>))
                 (tbl_computers empty_db) = []"
    by (simp add: store_defs)
  from C4_checkinComputer_stamp [THEN conjunct1, rule_format, OF h, of 2000]
  show ?thesis
    by (simp add: empty_db_def issue_def row_of_computer_def)
qed

text \<open>
  The claim as it was stated also covers the in-memory repository: there the computer of
  the last contract test, which has no \<open>checkinAt\<close>, comes back and is stored without
  one, and only the index entry gets a clock reading. And in the Supabase repository a
  computer whose id is already in the table is not inserted: the call fails with the
  store's unique-key violation.
\<close>

theorem C4_in_memory_counterexample:
  "checkinAt example_computer = None
   \<and> fst (InMemory_checkinComputer example_computer 2000 2001 InMemory_new)
       = Inr example_computer
   \<and> map_of (computers (snd (InMemory_checkinComputer example_computer 2000 2001 InMemory_new)))
         ''comp-6'' = Some example_computer
   \<and> map_option checkinAt_ent
       (map_of (enteredDevices (snd (InMemory_checkinComputer example_computer 2000 2001
          InMemory_new))) ''comp-6'') = Some (Some 2001)
   \<and> fst (Supabase_checkinComputer example_computer 3000 db_computer)
       = Inl (Backend UniqueViolation)"
  by (simp add: InMemory_checkinComputer_def InMemory_new_def example_computer_def
      mapDeviceFromComputer_def db_computer_eval Supabase_checkinComputer_def store_defs
      row_of_computer_def)


section \<open>Claims about the checkout requests\<close>

lemma update_checkout_computers_effect:
  "fst (update_checkout_computers i t db) = fault_now db"
  "requests (snd (update_checkout_computers i t db)) = requests db @ [(computers_table, Update)]"
  "faults (snd (update_checkout_computers i t db)) = faults db"
  "tbl_computers (snd (update_checkout_computers i t db))
     = (case fault_now db of
          None \<Rightarrow> update_rows i (\<lambda>r. r\<lparr>col_checkout_at := Some t\<rparr>) (tbl_computers db)
        | Some e \<Rightarrow> tbl_computers db)"
  "tbl_medical_devices (snd (update_checkout_computers i t db)) = tbl_medical_devices db"
  "tbl_frequent_computers (snd (update_checkout_computers i t db)) = tbl_frequent_computers db"
  by (simp_all add: update_checkout_computers_def Let_def issue_def split: option.splits)

lemma update_checkout_medical_devices_effect:
  "fst (update_checkout_medical_devices i t db) = fault_now db"
  "requests (snd (update_checkout_medical_devices i t db))
     = requests db @ [(medical_devices_table, Update)]"
  "faults (snd (update_checkout_medical_devices i t db)) = faults db"
  "tbl_computers (snd (update_checkout_medical_devices i t db)) = tbl_computers db"
  "tbl_medical_devices (snd (update_checkout_medical_devices i t db))
     = (case fault_now db of
          None \<Rightarrow> update_rows i (\<lambda>r. r\<lparr>col_checkout_at := Some t\<rparr>) (tbl_medical_devices db)
        | Some e \<Rightarrow> tbl_medical_devices db)"
  "tbl_frequent_computers (snd (update_checkout_medical_devices i t db))
     = tbl_frequent_computers db"
  by (simp_all add: update_checkout_medical_devices_def Let_def issue_def split: option.splits)

lemma update_checkout_frequent_computers_effect:
  "fst (update_checkout_frequent_computers i t db) = fault_now db"
  "requests (snd (update_checkout_frequent_computers i t db))
     = requests db @ [(frequent_computers_table, Update)]"
  "faults (snd (update_checkout_frequent_computers i t db)) = faults db"
  "tbl_computers (snd (update_checkout_frequent_computers i t db)) = tbl_computers db"
  "tbl_medical_devices (snd (update_checkout_frequent_computers i t db))
     = tbl_medical_devices db"
  "tbl_frequent_computers (snd (update_checkout_frequent_computers i t db))
     = (case fault_now db of
          None \<Rightarrow> update_rows i (\<lambda>r. r\<lparr>col_checkout_at := Some t\<rparr>)
                    (tbl_frequent_computers db)
        | Some e \<Rightarrow> tbl_frequent_computers db)"
  by (simp_all add: update_checkout_frequent_computers_def Let_def issue_def
      split: option.splits)

text \<open>\<open>checkoutDevice\<close> in terms of its three requests.\<close>

lemma Supabase_checkoutDevice_requests:
  "Supabase_checkoutDevice i t db =
     (case fault_now db of
        Some e \<Rightarrow> (Inl (Backend e), snd (update_checkout_computers i t db))
      | None \<Rightarrow>
          (case fault_now (snd (update_checkout_computers i t db)) of
             Some e \<Rightarrow>
               (Inl (Backend e),
                snd (update_checkout_medical_devices i t
                       (snd (update_checkout_computers i t db))))
           | None \<Rightarrow>
               (Inr (),
                snd (update_checkout_frequent_computers i t
                       (snd (update_checkout_medical_devices i t
                              (snd (update_checkout_computers i t db))))))))"
proof -
  have c: "update_checkout_computers i t db
             = (fault_now db, snd (update_checkout_computers i t db))"
    by (simp add: prod_eq_iff update_checkout_computers_effect(1))
  have m: "update_checkout_medical_devices i t (snd (update_checkout_computers i t db))
             = (fault_now (snd (update_checkout_computers i t db)),
                snd (update_checkout_medical_devices i t
                       (snd (update_checkout_computers i t db))))"
    by (simp add: prod_eq_iff update_checkout_medical_devices_effect(1))
  show ?thesis
    unfolding Supabase_checkoutDevice_def
    by (subst c, simp only: split_conv Let_def, subst m)
       (simp add: split_beta split: option.splits)
qed

lemma fault_now_after_computers:
  "fault_now (snd (update_checkout_computers i t db)) = faults db (Suc (length (requests db)))"
  by (simp add: fault_now_def update_checkout_computers_effect)

lemma fault_now_after_medical_devices:
  "fault_now (snd (update_checkout_medical_devices i t (snd (update_checkout_computers i t db))))
     = faults db (Suc (Suc (length (requests db))))"
  by (simp add: fault_now_def update_checkout_computers_effect
      update_checkout_medical_devices_effect)

text \<open>
  Claim C2, as amended. In the Supabase repository, for every id and time,
  \<open>checkoutDevice\<close> sends the update of \<open>checkout_at\<close> to \<open>computers\<close>, then to
  \<open>medical_devices\<close>, then to \<open>frequent_computers\<close>, whichever table holds the id. When
  the store fails the first request the call throws that error and sends nothing more;
  when it fails the second the call throws that error and the third is not sent; when the
  first two are answered the third is sent and the call succeeds, whether the store fails
  the third or not.
\<close>

theorem C2_supabase_checkout_requests:
  "(\<forall>e. faults db (length (requests db)) = Some e \<longrightarrow>
       Supabase_checkoutDevice i t db = (Inl (Backend e), issue (computers_table, Update) db))
   \<and> (\<forall>e. faults db (length (requests db)) = None
          \<and> faults db (Suc (length (requests db))) = Some e \<longrightarrow>
       fst (Supabase_checkoutDevice i t db) = Inl (Backend e)
       \<and> requests (snd (Supabase_checkoutDevice i t db))
           = requests db @ [(computers_table, Update), (medical_devices_table, Update)]
       \<and> tbl_medical_devices (snd (Supabase_checkoutDevice i t db)) = tbl_medical_devices db
       \<and> tbl_frequent_computers (snd (Supabase_checkoutDevice i t db))
           = tbl_frequent_computers db)
   \<and> (faults db (length (requests db)) = None
        \<and> faults db (Suc (length (requests db))) = None \<longrightarrow>
       fst (Supabase_checkoutDevice i t db) = Inr ()
       \<and> requests (snd (Supabase_checkoutDevice i t db))
           = requests db @ [(computers_table, Update), (medical_devices_table, Update),
                            (frequent_computers_table, Update)]
       \<and> tbl_computers (snd (Supabase_checkoutDevice i t db))
           = update_rows i (\<lambda>r. r\<lparr>col_checkout_at := Some t\<rparr>) (tbl_computers db)
       \<and> tbl_medical_devices (snd (Supabase_checkoutDevice i t db))
           = update_rows i (\<lambda>r. r\<lparr>col_checkout_at := Some t\<rparr>) (tbl_medical_devices db)
       \<and> tbl_frequent_computers (snd (Supabase_checkoutDevice i t db))
           = (case faults db (Suc (Suc (length (requests db)))) of
                None \<Rightarrow> update_rows i (\<lambda>r. r\<lparr>col_checkout_at := Some t\<rparr>)
                          (tbl_frequent_computers db)
              | Some e \<Rightarrow> tbl_frequent_computers db))"
proof (intro conjI allI impI)
  fix e assume "faults db (length (requests db)) = Some e"
  then show "Supabase_checkoutDevice i t db
               = (Inl (Backend e), issue (computers_table, Update) db)"
    by (simp add: Supabase_checkoutDevice_def update_checkout_computers_def Let_def
        fault_now_def)
next
  fix e
  assume "faults db (length (requests db)) = None
            \<and> faults db (Suc (length (requests db))) = Some e"
  then have f0: "fault_now db = None"
    and f1: "fault_now (snd (update_checkout_computers i t db)) = Some e"
    by (simp_all add: fault_now_after_computers) (simp add: fault_now_def)
  have run: "Supabase_checkoutDevice i t db =
      (Inl (Backend e),
       snd (update_checkout_medical_devices i t (snd (update_checkout_computers i t db))))"
    by (simp add: Supabase_checkoutDevice_requests f0 f1)
  show "fst (Supabase_checkoutDevice i t db) = Inl (Backend e)"
    by (simp add: run)
  show "requests (snd (Supabase_checkoutDevice i t db))
          = requests db @ [(computers_table, Update), (medical_devices_table, Update)]"
    by (simp add: run update_checkout_computers_effect update_checkout_medical_devices_effect)
  show "tbl_medical_devices (snd (Supabase_checkoutDevice i t db)) = tbl_medical_devices db"
    by (simp add: run f1 update_checkout_computers_effect
        update_checkout_medical_devices_effect)
  show "tbl_frequent_computers (snd (Supabase_checkoutDevice i t db))
          = tbl_frequent_computers db"
    by (simp add: run update_checkout_computers_effect update_checkout_medical_devices_effect)
next
  assume "faults db (length (requests db)) = None
            \<and> faults db (Suc (length (requests db))) = None"
  then have f0: "fault_now db = None"
    and f1: "fault_now (snd (update_checkout_computers i t db)) = None"
    by (simp_all add: fault_now_after_computers) (simp add: fault_now_def)
  have run: "Supabase_checkoutDevice i t db =
      (Inr (),
       snd (update_checkout_frequent_computers i t
              (snd (update_checkout_medical_devices i t
                     (snd (update_checkout_computers i t db))))))"
    by (simp add: Supabase_checkoutDevice_requests f0 f1)
  show "fst (Supabase_checkoutDevice i t db) = Inr ()"
    by (simp add: run)
  show "requests (snd (Supabase_checkoutDevice i t db))
          = requests db @ [(computers_table, Update), (medical_devices_table, Update),
                           (frequent_computers_table, Update)]"
    by (simp add: run update_checkout_computers_effect update_checkout_medical_devices_effect
        update_checkout_frequent_computers_effect)
  show "tbl_computers (snd (Supabase_checkoutDevice i t db))
          = update_rows i (\<lambda>r. r\<lparr>col_checkout_at := Some t\<rparr>) (tbl_computers db)"
    by (simp add: run f0 update_checkout_computers_effect
        update_checkout_medical_devices_effect update_checkout_frequent_computers_effect)
  show "tbl_medical_devices (snd (Supabase_checkoutDevice i t db))
          = update_rows i (\<lambda>r. r\<lparr>col_checkout_at := Some t\<rparr>) (tbl_medical_devices db)"
    by (simp add: run f1 update_checkout_computers_effect
        update_checkout_medical_devices_effect update_checkout_frequent_computers_effect)
  show "tbl_frequent_computers (snd (Supabase_checkoutDevice i t db))
          = (case faults db (Suc (Suc (length (requests db)))) of
               None \<Rightarrow> update_rows i (\<lambda>r. r\<lparr>col_checkout_at := Some t\<rparr>)
                         (tbl_frequent_computers db)
             | Some e \<Rightarrow> tbl_frequent_computers db)"
    by (simp add: run fault_now_after_medical_devices update_checkout_computers_effect
        update_checkout_medical_devices_effect update_checkout_frequent_computers_effect
        split: option.splits)
qed

text \<open>
  The three cases on a store that holds the id in none of its tables: the first, the
  second and the third request failing.
\<close>

theorem C2_supabase_checkout_requests_witness:
  "Supabase_checkoutDevice ''comp-6'' 5000 (failing_at 0 empty_db)
     = (Inl (Backend Unavailable), issue (computers_table, Update) (failing_at 0 empty_db))
   \<and> fst (Supabase_checkoutDevice ''comp-6'' 5000 (failing_at 1 empty_db))
       = Inl (Backend Unavailable)
   \<and> requests (snd (Supabase_checkoutDevice ''comp-6'' 5000 (failing_at 1 empty_db)))
       = [(computers_table, Update), (medical_devices_table, Update)]
   \<and> fst (Supabase_checkoutDevice ''comp-6'' 5000 (failing_at 2 empty_db)) = Inr ()
   \<and> requests (snd (Supabase_checkoutDevice ''comp-6'' 5000 (failing_at 2 empty_db)))
       = [(computers_table, Update), (medical_devices_table, Update),
          (frequent_computers_table, Update)]"
proof -
  have h0: "faults (failing_at 0 empty_db) (length (requests (failing_at 0 empty_db)))
              = Some Unavailable"
    by (simp add: failing_at_def empty_db_def)
  have h1: "faults (failing_at 1 empty_db) (length (requests (failing_at 1 empty_db))) = None
            \<and> faults (failing_at 1 empty_db) (Suc (length (requests (failing_at 1 empty_db))))
                = Some Unavailable"
    by (simp add: failing_at_def empty_db_def)
  have h2: "faults (failing_at 2 empty_db) (length (requests (failing_at 2 empty_db))) = None
            \<and> faults (failing_at 2 empty_db) (Suc (length (requests (failing_at 2 empty_db))))
                = None"
    by (simp add: failing_at_def empty_db_def)
  have r: "requests (failing_at k empty_db) = []" for k
    by (simp add: failing_at_def empty_db_def)
  from C2_supabase_checkout_requests [of "failing_at 0 empty_db" "''comp-6''" 5000] h0
  have c0: "Supabase_checkoutDevice ''comp-6'' 5000 (failing_at 0 empty_db)
     = (Inl (Backend Unavailable), issue (computers_table, Update) (failing_at 0 empty_db))"
    by blast
  from C2_supabase_checkout_requests [of "failing_at 1 empty_db" "''comp-6''" 5000] h1
  have c1: "fst (Supabase_checkoutDevice ''comp-6'' 5000 (failing_at 1 empty_db))
       = Inl (Backend Unavailable)
     \<and> requests (snd (Supabase_checkoutDevice ''comp-6'' 5000 (failing_at 1 empty_db)))
       = requests (failing_at 1 empty_db)
           @ [(computers_table, Update), (medical_devices_table, Update)]"
    by blast
  from C2_supabase_checkout_requests [of "failing_at 2 empty_db" "''comp-6''" 5000] h2
  have c2: "fst (Supabase_checkoutDevice ''comp-6'' 5000 (failing_at 2 empty_db)) = Inr ()
     \<and> requests (snd (Supabase_checkoutDevice ''comp-6'' 5000 (failing_at 2 empty_db)))
       = requests (failing_at 2 empty_db)
           @ [(computers_table, Update), (medical_devices_table, Update),
              (frequent_computers_table, Update)]"
    by blast
  from c0 c1 c2 show ?thesis by (simp only: r append_Nil simp_thms)
qed

text \<open>
  The claim as it was stated also covers the in-memory repository, which does something
  else: it looks the id up in the entered-devices index and stamps only the map that the
  entry's tag names. With the id ''comp-6'' checked in as a computer and then as a medical
  device, a checkout succeeds, stamps the medical device and leaves the computer of the
  same id without a \<open>checkoutAt\<close>; and on a new repository it throws \<open>DeviceNotFound\<close>
  where the Supabase repository succeeds.
\<close>

theorem C2_in_memory_counterexample:
  "fst (InMemory_checkoutDevice ''comp-6'' 5000 repo_same_id_twice) = Inr ()
   \<and> medicalDevices (snd (InMemory_checkoutDevice ''comp-6'' 5000 repo_same_id_twice))
       = [(''comp-6'', example_medical_device\<lparr>checkoutAt := Some 5000\<rparr>)]
   \<and> computers (snd (InMemory_checkoutDevice ''comp-6'' 5000 repo_same_id_twice))
       = [(''comp-6'', example_computer)]
   \<and> checkoutAt example_computer = None
   \<and> InMemory_checkoutDevice ''comp-6'' 5000 InMemory_new = (Inl DeviceNotFound, InMemory_new)
   \<and> fst (Supabase_checkoutDevice ''comp-6'' 5000 empty_db) = Inr ()"
  by (simp add: repo_same_id_twice_eval InMemory_checkoutDevice_def InMemory_new_def
      mapDeviceFromMedicalDevice_def example_defs
      Supabase_checkoutDevice_def update_checkout_computers_def
      update_checkout_medical_devices_def update_checkout_frequent_computers_def store_defs)


section \<open>Claims about queries\<close>

lemma criteria_query_fields:
  "q_eq (criteria_query c) = filterBy c"
  "q_order (criteria_query c) = sortBy c"
  "q_offset (criteria_query c) = map_option int (offset c)"
  "q_limit (criteria_query c) =
     (case offset c of
        None \<Rightarrow> map_option int (limit c)
      | Some k \<Rightarrow> Some (case limit c of None \<Rightarrow> 10 | Some n \<Rightarrow> int n))"
  by (simp_all add: criteria_query_def Let_def select_all_def eq_def order_def limit_q_def
       range_q_def split: option.splits prod.splits)

lemma window_criteria:
  "window (criteria_query c) rows =
     (case offset c of
        None \<Rightarrow> (case limit c of None \<Rightarrow> rows | Some n \<Rightarrow> take n rows)
      | Some k \<Rightarrow> take (case limit c of None \<Rightarrow> 10 | Some n \<Rightarrow> n) (drop k rows))"
  by (simp add: window_def criteria_query_fields Let_def split: option.splits)

lemma run_select_window:
  "run_select cols le (criteria_query c) rows =
     (case run_select cols le (criteria_query (unpaged c)) rows of
        Inl e \<Rightarrow> Inl e
      | Inr rs \<Rightarrow> Inr (window (criteria_query c) rs))"
  by (simp add: run_select_def criteria_query_fields unpaged_def window_def
        split: option.splits prod.splits sum.splits)

lemma run_select_plain:
  "filterBy c = None \<Longrightarrow> sortBy c = None \<Longrightarrow>
   run_select cols le (criteria_query (unpaged c)) rows = Inr rows"
  by (simp add: run_select_def criteria_query_fields unpaged_def window_def)

text \<open>
  Claim C3, as amended. In the Supabase repository, for every criteria,
  \<open>getEnteredDevices(criteria)\<close> succeeds exactly when \<open>getComputers(criteria)\<close> and
  \<open>getMedicalDevices(criteria)\<close> both do, and its result is then the computers, each
  tagged "computer", followed by the medical devices, each tagged "medical-device"; no
  element is tagged "frequent-computer".
\<close>

theorem C3_supabase_entered_devices:
  "(Supabase_getComputers criteria db = (Inr cs, db1)
      \<and> Supabase_getMedicalDevices criteria db1 = (Inr ms, db2) \<longrightarrow>
    Supabase_getEnteredDevices criteria db
      = (Inr (map entered_of_computer cs @ map entered_of_medical_device ms), db2))
   \<and> (fst (Supabase_getEnteredDevices criteria db) = Inr es \<longrightarrow>
       (\<exists>cs ms. fst (Supabase_getComputers criteria db) = Inr cs
          \<and> fst (Supabase_getMedicalDevices criteria (snd (Supabase_getComputers criteria db)))
              = Inr ms
          \<and> es = map entered_of_computer cs @ map entered_of_medical_device ms
          \<and> type_ent ` set es \<subseteq> {computer, medical_device}))"
proof (intro conjI impI)
  assume "Supabase_getComputers criteria db = (Inr cs, db1)
            \<and> Supabase_getMedicalDevices criteria db1 = (Inr ms, db2)"
  then show "Supabase_getEnteredDevices criteria db
      = (Inr (map entered_of_computer cs @ map entered_of_medical_device ms), db2)"
    by (simp add: Supabase_getEnteredDevices_def)
next
  assume a: "fst (Supabase_getEnteredDevices criteria db) = Inr es"
  then obtain cs ms where
    c: "fst (Supabase_getComputers criteria db) = Inr cs"
    and m: "fst (Supabase_getMedicalDevices criteria (snd (Supabase_getComputers criteria db)))
              = Inr ms"
    and e: "es = map entered_of_computer cs @ map entered_of_medical_device ms"
    by (auto simp: Supabase_getEnteredDevices_def split_beta Let_def split: sum.splits)
  have "type_ent ` set es \<subseteq> {computer, medical_device}"
    by (auto simp: e entered_of_computer_def entered_of_medical_device_def)
  with c m e show "\<exists>cs ms. fst (Supabase_getComputers criteria db) = Inr cs
          \<and> fst (Supabase_getMedicalDevices criteria (snd (Supabase_getComputers criteria db)))
              = Inr ms
          \<and> es = map entered_of_computer cs @ map entered_of_medical_device ms
          \<and> type_ent ` set es \<subseteq> {computer, medical_device}"
    by blast
qed

theorem C3_supabase_entered_devices_witness:
  "Supabase_getEnteredDevices no_criteria db_computer
     = (Inr [entered_of_computer (example_computer\<lparr>checkinAt := Some 2000\<rparr>)],
        issue (medical_devices_table, Select) (issue (computers_table, Select) db_computer))
   \<and> type_ent (entered_of_computer (example_computer\<lparr>checkinAt := Some 2000\<rparr>)) = computer"
proof -
  have q: "run_select cols le (criteria_query no_criteria) rows = Inr rows" for cols le
    and rows :: "'r list"
    by (simp add: run_select_def criteria_query_def no_criteria_def select_all_def window_def)
  have f: "fault_now db_computer = None"
    "fault_now (issue (computers_table, Select) db_computer) = None"
    by (simp_all add: db_computer_eval fault_now_def issue_def)
  have rows: "map computer_of_row (tbl_computers db_computer)
                = [example_computer\<lparr>checkinAt := Some 2000\<rparr>]"
    "tbl_medical_devices db_computer = []"
    by (simp_all add: db_computer_eval computer_of_row_def row_of_computer_def
        example_computer_def)
  have c: "Supabase_getComputers no_criteria db_computer
             = (Inr [example_computer\<lparr>checkinAt := Some 2000\<rparr>],
                issue (computers_table, Select) db_computer)"
    by (simp add: Supabase_getComputers_def Let_def f q rows)
  have m: "Supabase_getMedicalDevices no_criteria (issue (computers_table, Select) db_computer)
             = (Inr [],
                issue (medical_devices_table, Select)
                  (issue (computers_table, Select) db_computer))"
    by (simp add: Supabase_getMedicalDevices_def Let_def f q issue_simps rows)
  have "Supabase_getEnteredDevices no_criteria db_computer
      = (Inr (map entered_of_computer [example_computer\<lparr>checkinAt := Some 2000\<rparr>]
              @ map entered_of_medical_device []),
         issue (medical_devices_table, Select) (issue (computers_table, Select) db_computer))"
    by (rule C3_supabase_entered_devices [THEN conjunct1, rule_format]) (rule conjI [OF c m])
  then show ?thesis
    by (simp add: entered_of_computer_def)
qed

text \<open>
  The claim as it was stated also covers the in-memory repository, whose
  \<open>getEnteredDevices\<close> returns the entered-devices index instead: after a frequent
  computer is registered and checked in, its result is one record tagged
  "frequent-computer", while there are no computers and no medical devices to concatenate.
\<close>

theorem C3_in_memory_counterexample:
  "map type_ent (InMemory_getEnteredDevices no_criteria repo_frequent_entered)
     = [frequent_computer]
   \<and> map entered_of_computer (InMemory_getComputers no_criteria repo_frequent_entered)
       @ map entered_of_medical_device
           (InMemory_getMedicalDevices no_criteria repo_frequent_entered) = []"
  by (simp add: repo_frequent_entered_eval InMemory_getEnteredDevices_def
      InMemory_getComputers_def InMemory_getMedicalDevices_def values_of_def
      mapDeviceFrequentComputer_def)

text \<open>
  Claim C6, as amended. The Supabase repository honours the pagination window: when the
  store answers, \<open>getComputers\<close> with offset \<open>k\<close> returns, of the rows that the filter
  and the sort of the criteria select, those at positions \<open>k\<close> to \<open>k + n - 1\<close>, where
  \<open>n\<close> is the limit, or 10 when no limit is given; with exactly 15 computers stored,
  \<open>getComputers({limit: 10, offset: 10})\<close> returns exactly 5 records.
\<close>

theorem C6_supabase_pagination:
  "(fault_now db = None
      \<and> run_select base_column (collation db) (criteria_query (unpaged c)) (tbl_computers db)
          = Inr rs
      \<and> offset c = Some k \<longrightarrow>
    fst (Supabase_getComputers c db)
      = Inr (map computer_of_row
               (take (case limit c of None \<Rightarrow> 10 | Some n \<Rightarrow> n) (drop k rs))))
   \<and> (fault_now db = None \<and> length (tbl_computers db) = 15 \<longrightarrow>
       map_sum id length (fst (Supabase_getComputers second_page db)) = Inr 5)"
proof (intro conjI impI)
  assume "fault_now db = None
      \<and> run_select base_column (collation db) (criteria_query (unpaged c)) (tbl_computers db)
          = Inr rs
      \<and> offset c = Some k"
  then show "fst (Supabase_getComputers c db)
      = Inr (map computer_of_row
               (take (case limit c of None \<Rightarrow> 10 | Some n \<Rightarrow> n) (drop k rs)))"
    by (simp add: Supabase_getComputers_def Let_def run_select_window [of _ _ c]
        window_criteria)
next
  assume a: "fault_now db = None \<and> length (tbl_computers db) = 15"
  have "run_select base_column (collation db) (criteria_query (unpaged second_page))
          (tbl_computers db) = Inr (tbl_computers db)"
    by (rule run_select_plain) (simp_all add: second_page_def)
  with a show "map_sum id length (fst (Supabase_getComputers second_page db)) = Inr 5"
    by (simp add: Supabase_getComputers_def Let_def run_select_window [of _ _ second_page]
        window_criteria) (simp add: second_page_def)
qed

theorem C6_supabase_pagination_witness:
  "fst (Supabase_getComputers second_page db_fifteen)
     = Inr (map computer_of_row (take 10 (drop 10 (tbl_computers db_fifteen))))
   \<and> map_sum id length (fst (Supabase_getComputers second_page db_fifteen)) = Inr 5"
proof -
  have r: "run_select base_column (collation db_fifteen) (criteria_query (unpaged second_page))
             (tbl_computers db_fifteen) = Inr (tbl_computers db_fifteen)"
    by (rule run_select_plain) (simp_all add: second_page_def)
  have o: "offset second_page = Some 10" and l: "limit second_page = Some 10"
    by (simp_all add: second_page_def)
  from C6_supabase_pagination [of db_fifteen second_page "tbl_computers db_fifteen" 10]
    db_fifteen_eval r o
  show ?thesis by (simp add: l)
qed

text \<open>
  The claim as it was stated also covers the in-memory repository, whose \<open>getComputers\<close>
  ignores the criteria: with the same 15 computers checked in,
  \<open>getComputers({limit: 10, offset: 10})\<close> returns all 15.
\<close>

theorem C6_in_memory_counterexample:
  "length (InMemory_getComputers second_page repo_fifteen) = 15"
  by (simp add: repo_fifteen_def fifteen_computers_def InMemory_checkinComputer_def
      InMemory_new_def InMemory_getComputers_def values_of_def)


section \<open>Claims about frequent computers\<close>

lemma rows_with_id_stamped:
  "rows_with_id i (update_rows i (\<lambda>r. r\<lparr>col_checkin_at := Some t\<rparr>) rows)
     = map (\<lambda>r. r\<lparr>col_checkin_at := Some t\<rparr>) (rows_with_id i rows)"
  by (induction rows) (simp_all add: rows_with_id_def update_rows_def)

text \<open>
  Claim C5, as amended. In the in-memory repository, for every id and time \<open>t\<close>:
  \<open>checkinFrequentComputer(id, t)\<close> on an id that is not registered throws
  \<open>DeviceNotFound\<close> and changes no state, and on a registered id it succeeds and the
  returned record's \<open>device.checkinAt\<close> is \<open>t\<close>. In the Supabase repository an id with
  no row in \<open>frequent_computers\<close> makes the call throw the store's error (the
  no-single-row error when the store answers), never \<open>DeviceNotFound\<close>, with the tables
  unchanged; an id with one row, when the store answers, makes it succeed with
  \<open>device.checkinAt\<close> equal to \<open>t\<close>.
\<close>

theorem C5_checkinFrequentComputer:
  "(\<not> InMemory_isFrequentComputerRegistered i s \<longrightarrow>
      InMemory_checkinFrequentComputer i t now1 now2 s = (Inl DeviceNotFound, s))
   \<and> (InMemory_isFrequentComputerRegistered i s \<longrightarrow>
      (\<exists>f s'. InMemory_checkinFrequentComputer i t now1 now2 s = (Inr f, s')
          \<and> checkinAt (device f) = Some t))
   \<and> (rows_with_id i (tbl_frequent_computers db) = [] \<longrightarrow>
      (\<exists>e. Supabase_checkinFrequentComputer i t db
              = (Inl (Backend e), issue (frequent_computers_table, Update) db)
           \<and> (fault_now db = None \<longrightarrow> e = NoSingleRow)))
   \<and> (rows_with_id i (tbl_frequent_computers db) = [r] \<and> fault_now db = None \<longrightarrow>
      (\<exists>f db'. Supabase_checkinFrequentComputer i t db = (Inr f, db')
          \<and> f = frequent_computer_of_row (r\<lparr>col_checkin_at := Some t\<rparr>)
          \<and> checkinAt (device f) = Some t))"
proof (intro conjI impI)
  assume "\<not> InMemory_isFrequentComputerRegistered i s"
  then show "InMemory_checkinFrequentComputer i t now1 now2 s = (Inl DeviceNotFound, s)"
    by (simp add: InMemory_isFrequentComputerRegistered_def has_def
        InMemory_checkinFrequentComputer_def)
next
  assume "InMemory_isFrequentComputerRegistered i s"
  then obtain f where "map_of (frequentComputer s) i = Some f"
    by (auto simp: InMemory_isFrequentComputerRegistered_def has_def)
  then show "\<exists>f s'. InMemory_checkinFrequentComputer i t now1 now2 s = (Inr f, s')
          \<and> checkinAt (device f) = Some t"
    by (simp add: InMemory_checkinFrequentComputer_def Let_def)
next
  assume "rows_with_id i (tbl_frequent_computers db) = []"
  then show "\<exists>e. Supabase_checkinFrequentComputer i t db
              = (Inl (Backend e), issue (frequent_computers_table, Update) db)
           \<and> (fault_now db = None \<longrightarrow> e = NoSingleRow)"
    by (cases "fault_now db")
       (simp_all add: Supabase_checkinFrequentComputer_def Let_def rows_with_id_stamped
          single_def)
next
  assume "rows_with_id i (tbl_frequent_computers db) = [r] \<and> fault_now db = None"
  then show "\<exists>f db'. Supabase_checkinFrequentComputer i t db = (Inr f, db')
          \<and> f = frequent_computer_of_row (r\<lparr>col_checkin_at := Some t\<rparr>)
          \<and> checkinAt (device f) = Some t"
    by (simp add: Supabase_checkinFrequentComputer_def Let_def rows_with_id_stamped single_def
        frequent_computer_of_row_def computer_of_row_def)
qed

theorem C5_checkinFrequentComputer_witness:
  "InMemory_checkinFrequentComputer ''comp-5'' 4000 4001 4002 InMemory_new
     = (Inl DeviceNotFound, InMemory_new)
   \<and> (\<exists>f s'. InMemory_checkinFrequentComputer ''comp-5'' 4000 4001 4002 repo_frequent_registered
                = (Inr f, s') \<and> checkinAt (device f) = Some 4000)
   \<and> Supabase_checkinFrequentComputer ''comp-5'' 4000 empty_db
       = (Inl (Backend NoSingleRow), issue (frequent_computers_table, Update) empty_db)
   \<and> (\<exists>f db'. Supabase_checkinFrequentComputer ''comp-5'' 4000 db_frequent = (Inr f, db')
          \<and> checkinAt (device f) = Some 4000)"
proof -
  have h1: "\<not> InMemory_isFrequentComputerRegistered ''comp-5'' InMemory_new"
    by (simp add: InMemory_isFrequentComputerRegistered_def has_def InMemory_new_def)
  have h2: "InMemory_isFrequentComputerRegistered ''comp-5'' repo_frequent_registered"
    by (simp add: InMemory_isFrequentComputerRegistered_def has_def
        repo_frequent_registered_eval)
  have h3: "rows_with_id ''comp-5'' (tbl_frequent_computers empty_db) = []"
    and h3': "fault_now empty_db = None"
    by (simp_all add: store_defs)
  have h4: "rows_with_id ''comp-5'' (tbl_frequent_computers db_frequent)
              = [row_of_frequent_computer example_frequent_computer]
            \<and> fault_now db_frequent = None"
    by (simp add: db_frequent_eval rows_with_id_def fault_now_def
        row_of_frequent_computer_def example_defs)
  note c = C5_checkinFrequentComputer
  from c [THEN conjunct1, rule_format, OF h1]
  have a1: "InMemory_checkinFrequentComputer ''comp-5'' 4000 4001 4002 InMemory_new
     = (Inl DeviceNotFound, InMemory_new)" .
  from c [THEN conjunct2, THEN conjunct1, rule_format, OF h2]
  have a2: "\<exists>f s'. InMemory_checkinFrequentComputer ''comp-5'' 4000 4001 4002
                repo_frequent_registered = (Inr f, s') \<and> checkinAt (device f) = Some 4000" .
  from c [THEN conjunct2, THEN conjunct2, THEN conjunct1, rule_format, OF h3] h3'
  have a3: "Supabase_checkinFrequentComputer ''comp-5'' 4000 empty_db
       = (Inl (Backend NoSingleRow), issue (frequent_computers_table, Update) empty_db)"
    by blast
  from c [THEN conjunct2, THEN conjunct2, THEN conjunct2, rule_format, OF h4]
  have a4: "\<exists>f db'. Supabase_checkinFrequentComputer ''comp-5'' 4000 db_frequent = (Inr f, db')
          \<and> checkinAt (device f) = Some 4000"
    by blast
  from a1 a2 a3 a4 show ?thesis by blast
qed

text \<open>
  The claim as it was stated asks for \<open>DeviceNotFound\<close> from every repository. The
  Supabase repository rethrows what the store answers: on an empty store the call fails
  with the store's no-single-row error.
\<close>

theorem C5_supabase_counterexample:
  "fst (Supabase_checkinFrequentComputer ''comp-5'' 4000 empty_db) = Inl (Backend NoSingleRow)
   \<and> fst (Supabase_checkinFrequentComputer ''comp-5'' 4000 empty_db) \<noteq> Inl DeviceNotFound"
  by (simp add: Supabase_checkinFrequentComputer_def store_defs)

text \<open>
  Claim C7. After \<open>registerFrequentComputer(f)\<close> has succeeded,
  \<open>getFrequentComputers\<close> with the exact-match filter on the id of \<open>f\<close> returns a
  record with that id whose \<open>checkinURL\<close> and \<open>checkoutURL\<close> equal those of \<open>f\<close>:
  in the in-memory repository \<open>f\<close> itself is among the records returned; in the
  Supabase repository, when the store answers the query, the result is the one record
  read back from the row of \<open>f\<close>.
\<close>

theorem C7_frequent_computer_round_trip:
  "(InMemory_registerFrequentComputer f s = (Inr g, s') \<longrightarrow>
      (\<exists>x \<in> set (InMemory_getFrequentComputers (id_filter (id_dev (device f))) s').
          id_dev (device x) = id_dev (device f)
          \<and> checkinURL x = checkinURL f \<and> checkoutURL x = checkoutURL f))
   \<and> (Supabase_registerFrequentComputer f db = (Inr g, db') \<and> fault_now db' = None \<longrightarrow>
      (\<exists>x. fst (Supabase_getFrequentComputers (id_filter (id_dev (device f))) db') = Inr [x]
          \<and> id_dev (device x) = id_dev (device f)
          \<and> checkinURL x = checkinURL f \<and> checkoutURL x = checkoutURL f))"
proof (intro conjI impI)
  assume "InMemory_registerFrequentComputer f s = (Inr g, s')"
  then have s': "s' = s\<lparr>frequentComputer :=
                      AList.update (id_dev (device f)) f (frequentComputer s)\<rparr>"
    by (auto simp: InMemory_registerFrequentComputer_def)
  have "map_of (frequentComputer s') (id_dev (device f)) = Some f"
    by (simp add: s' update_conv')
  then have "f \<in> set (InMemory_getFrequentComputers (id_filter (id_dev (device f))) s')"
    unfolding InMemory_getFrequentComputers_def by (rule map_of_in_values)
  then show "\<exists>x \<in> set (InMemory_getFrequentComputers (id_filter (id_dev (device f))) s').
          id_dev (device x) = id_dev (device f)
          \<and> checkinURL x = checkinURL f \<and> checkoutURL x = checkoutURL f"
    by blast
next
  assume a: "Supabase_registerFrequentComputer f db = (Inr g, db') \<and> fault_now db' = None"
  then have no: "\<not> list_ex (\<lambda>x. col_id x = id_dev (device f)) (tbl_frequent_computers db)"
    and db': "tbl_frequent_computers db'
                = tbl_frequent_computers db @ [row_of_frequent_computer f]"
    by (auto simp: Supabase_registerFrequentComputer_def Let_def insert_row_def issue_def
         row_of_frequent_computer_def split: option.splits if_splits)
  have rows: "rows_with_id (id_dev (device f)) (tbl_frequent_computers db')
                = [row_of_frequent_computer f]"
    using filter_none [OF no] by (simp add: db' rows_with_id_def row_of_frequent_computer_def)
  have "run_select frequent_computers_column le (criteria_query (id_filter j)) rs
          = Inr (rows_with_id j rs)" for le j rs
    by (simp add: run_select_def criteria_query_def id_filter_def select_all_def eq_def
        frequent_computers_column_def base_column_def window_def rows_with_id_def)
  with a rows
  have "fst (Supabase_getFrequentComputers (id_filter (id_dev (device f))) db')
          = Inr [frequent_computer_of_row (row_of_frequent_computer f)]"
    by (simp add: Supabase_getFrequentComputers_def Let_def)
  then show "\<exists>x. fst (Supabase_getFrequentComputers (id_filter (id_dev (device f))) db')
                 = Inr [x]
          \<and> id_dev (device x) = id_dev (device f)
          \<and> checkinURL x = checkinURL f \<and> checkoutURL x = checkoutURL f"
    by (simp add: frequent_computer_of_row_def computer_of_row_def row_of_frequent_computer_def)
qed

theorem C7_frequent_computer_round_trip_witness:
  "InMemory_registerFrequentComputer example_frequent_computer InMemory_new
     = (Inr example_frequent_computer, repo_frequent_registered)
   \<and> (\<exists>x \<in> set (InMemory_getFrequentComputers (id_filter ''comp-5'') repo_frequent_registered).
          id_dev (device x) = ''comp-5''
          \<and> checkinURL x = ''http://x/checkin'' \<and> checkoutURL x = ''http://x/checkout'')
   \<and> Supabase_registerFrequentComputer example_frequent_computer empty_db
     = (Inr example_frequent_computer, db_frequent)
   \<and> (\<exists>x. fst (Supabase_getFrequentComputers (id_filter ''comp-5'') db_frequent) = Inr [x]
          \<and> id_dev (device x) = ''comp-5''
          \<and> checkinURL x = ''http://x/checkin'' \<and> checkoutURL x = ''http://x/checkout'')"
proof -
  have m: "InMemory_registerFrequentComputer example_frequent_computer InMemory_new
     = (Inr example_frequent_computer, repo_frequent_registered)"
    by (simp add: repo_frequent_registered_def InMemory_registerFrequentComputer_def)
  have d: "Supabase_registerFrequentComputer example_frequent_computer empty_db
     = (Inr example_frequent_computer, db_frequent)
     \<and> fault_now db_frequent = None"
    by (simp add: db_frequent_def Supabase_registerFrequentComputer_def store_defs)
  have e: "id_dev (device example_frequent_computer) = ''comp-5''"
    "checkinURL example_frequent_computer = ''http://x/checkin''"
    "checkoutURL example_frequent_computer = ''http://x/checkout''"
    by (simp_all add: example_defs)
  note c = C7_frequent_computer_round_trip
  from c [THEN conjunct1, rule_format, OF m] c [THEN conjunct2, rule_format, OF d] m d
  show ?thesis by (simp only: e simp_thms)
qed

text \<open>
  Claim C8, as amended. Registering a frequent computer whose id is already registered:
  the in-memory repository succeeds and replaces the existing record with the new one; the
  Supabase repository fails with the error of the store (its unique-key violation when the
  store answers), not with \<open>DuplicateDevice\<close>, and leaves the table as it is.
\<close>

theorem C8_register_existing_id:
  "(InMemory_isFrequentComputerRegistered (id_dev (device f)) s \<longrightarrow>
      fst (InMemory_registerFrequentComputer f s) = Inr f
      \<and> map_of (frequentComputer (snd (InMemory_registerFrequentComputer f s)))
            (id_dev (device f)) = Some f)
   \<and> (rows_with_id (id_dev (device f)) (tbl_frequent_computers db) \<noteq> [] \<longrightarrow>
      (\<exists>e. Supabase_registerFrequentComputer f db
              = (Inl (Backend e), issue (frequent_computers_table, Insert) db)
           \<and> (fault_now db = None \<longrightarrow> e = UniqueViolation)))"
proof (intro conjI impI)
  show "fst (InMemory_registerFrequentComputer f s) = Inr f"
    by (simp add: InMemory_registerFrequentComputer_def)
  show "map_of (frequentComputer (snd (InMemory_registerFrequentComputer f s)))
            (id_dev (device f)) = Some f"
    by (simp add: InMemory_registerFrequentComputer_def update_conv')
next
  assume "rows_with_id (id_dev (device f)) (tbl_frequent_computers db) \<noteq> []"
  then have "list_ex (\<lambda>x. col_id x = id_dev (device f)) (tbl_frequent_computers db)"
    by (auto simp: rows_with_id_def filter_empty_conv list_ex_iff)
  then show "\<exists>e. Supabase_registerFrequentComputer f db
              = (Inl (Backend e), issue (frequent_computers_table, Insert) db)
           \<and> (fault_now db = None \<longrightarrow> e = UniqueViolation)"
    by (cases "fault_now db")
       (simp_all add: Supabase_registerFrequentComputer_def Let_def insert_row_def
          row_of_frequent_computer_def)
qed

theorem C8_register_existing_id_witness:
  "InMemory_isFrequentComputerRegistered ''comp-5'' repo_frequent_registered
   \<and> fst (InMemory_registerFrequentComputer example_frequent_computer_again
            repo_frequent_registered) = Inr example_frequent_computer_again
   \<and> map_of (frequentComputer (snd (InMemory_registerFrequentComputer
                example_frequent_computer_again repo_frequent_registered))) ''comp-5''
       = Some example_frequent_computer_again
   \<and> Supabase_registerFrequentComputer example_frequent_computer_again db_frequent
       = (Inl (Backend UniqueViolation), issue (frequent_computers_table, Insert) db_frequent)"
proof -
  have e: "id_dev (device example_frequent_computer_again) = ''comp-5''"
    by (simp add: example_defs)
  have h1: "InMemory_isFrequentComputerRegistered
              (id_dev (device example_frequent_computer_again)) repo_frequent_registered"
    by (simp add: e InMemory_isFrequentComputerRegistered_def has_def
        repo_frequent_registered_eval)
  have h2: "rows_with_id (id_dev (device example_frequent_computer_again))
              (tbl_frequent_computers db_frequent) \<noteq> []"
    and h2': "fault_now db_frequent = None"
    by (simp_all add: e db_frequent_eval rows_with_id_def fault_now_def
        row_of_frequent_computer_def example_defs)
  note c = C8_register_existing_id
  from c [THEN conjunct1, rule_format, OF h1]
  have a1: "fst (InMemory_registerFrequentComputer example_frequent_computer_again
            repo_frequent_registered) = Inr example_frequent_computer_again
   \<and> map_of (frequentComputer (snd (InMemory_registerFrequentComputer
                example_frequent_computer_again repo_frequent_registered))) ''comp-5''
       = Some example_frequent_computer_again"
    by (simp only: e)
  from c [THEN conjunct2, rule_format, OF h2] h2'
  have a2: "Supabase_registerFrequentComputer example_frequent_computer_again db_frequent
       = (Inl (Backend UniqueViolation), issue (frequent_computers_table, Insert) db_frequent)"
    by blast
  from h1 a1 a2 show ?thesis by (simp only: e simp_thms)
qed

text \<open>
  The claim as it was stated fails on the in-memory repository: registering a second
  record under the registered id ''comp-5'' returns the new record, and the stored record
  has been replaced (its \<open>checkinURL\<close> is the new one).
\<close>

theorem C8_in_memory_counterexample:
  "InMemory_isFrequentComputerRegistered ''comp-5'' repo_frequent_registered
   \<and> fst (InMemory_registerFrequentComputer example_frequent_computer_again
            repo_frequent_registered) = Inr example_frequent_computer_again
   \<and> map checkinURL (InMemory_getFrequentComputers no_criteria repo_frequent_registered)
       = [''http://x/checkin'']
   \<and> map checkinURL
        (InMemory_getFrequentComputers no_criteria
           (snd (InMemory_registerFrequentComputer example_frequent_computer_again
                   repo_frequent_registered)))
       = [''http://y/checkin'']"
  by (simp add: repo_frequent_registered_eval in_memory_defs example_defs)

end
